theory Spec2Isabelle
  imports
    Main
    "HOL-Library.Sublist"
    "HOL-Library.Mapping"
    "HOL-Library.AList_Mapping"
    "HOL-Library.Char_ord"
    "HOL-Library.List_Lexorder"
begin

section \<open>Data model of frame-writer.cpp\<close>

text \<open>
  The frame writer drives the FFmpeg libraries. The library is not part of the program:
  it is modelled by a record of answers (\<open>ffmpeg\<close> below), one field per library function
  whose result the program inspects, and by a log of the library calls the program makes,
  in order. Properties of ordering (header, packets, trailer, releases) are read off that log.
\<close>

subsection \<open>Types of the library interface\<close>

text \<open>
  The values of the library's pixel-format enumeration that the source names, and one
  constructor for all the others. \<open>AV_PIX_FMT_NONE\<close> terminates arrays of formats.
\<close>

datatype AVPixelFormat =
    AV_PIX_FMT_NONE
  | AV_PIX_FMT_YUV420P
  | AV_PIX_FMT_RGB0
  | AV_PIX_FMT_BGR0
  | AV_PIX_FMT_NV12
  | AV_PIX_FMT_VAAPI
  | AV_PIX_FMT_OTHER nat

type_synonym AVRational = "int \<times> int"

record AVCodec =
  codec_name :: string
  pix_fmts :: "AVPixelFormat list"

record AVOutputFormat =
  AVFMT_NOFILE :: bool
  AVFMT_GLOBALHEADER :: bool

record AVStream =
  st_index :: int
  st_time_base :: AVRational

record AVCodecContext =
  cc_width :: int
  cc_height :: int
  cc_time_base :: AVRational
  cc_pix_fmt :: AVPixelFormat
  cc_global_header :: bool
  cc_hw_frames_ctx :: bool

record AVHWFramesContext =
  hwf_width :: int
  hwf_height :: int
  hwf_format :: AVPixelFormat
  hwf_sw_format :: AVPixelFormat

record AVFrame =
  fr_format :: AVPixelFormat
  fr_width :: int
  fr_height :: int
  fr_data0 :: int
  fr_linesize0 :: int
  fr_pts :: int
  fr_hw_frames_ctx :: bool

record AVPacket =
  pkt_pts :: int
  pkt_dts :: int
  pkt_duration :: int
  pkt_stream_index :: int
  pkt_data :: "nat list"

record SwsContext =
  sws_src_format :: AVPixelFormat
  sws_dst_format :: AVPixelFormat

subsection \<open>Configuration and the writer object\<close>

text \<open>
  Modelled from the spec: the declarations of frame-writer.hpp (the input-format
  enumeration, the parameter structure and the members of the class), which the source
  includes and which is not among the source files. The fields are those of the
  configuration table of the specification, under the names frame-writer.cpp uses.
\<close>

datatype InputFormat = INPUT_FORMAT_BGR0 | INPUT_FORMAT_RGB0

record FrameWriterParams =
  file_path :: string
  width :: int
  height :: int
  format :: InputFormat
  codec :: string
  hw_device :: string
  codec_options :: "(string, string) mapping"
  enable_ffmpeg_debug_output :: bool

text \<open>
  The members of the class that frame-writer.cpp reads and writes. A pointer the source
  tests against null is an option; the other pointers are the objects they point to.
\<close>

record FrameWriter =
  params :: FrameWriterParams
  outputFmt :: AVOutputFormat
  fmtCtx_oformat :: AVOutputFormat
  stream :: AVStream
  codecCtx :: AVCodecContext
  swsCtx :: "SwsContext option"
  encoder_frame :: AVFrame
  hw_device_context :: "string option"
  hw_frame_context :: "AVHWFramesContext option"
  hw_frame :: AVFrame
  pkt :: AVPacket

definition FPS :: int where
  "FPS = 60"

section \<open>Format negotiation\<close>

text \<open>
  \<open>is_fmt_supported\<close> walks the array up to the terminator. The array is the list of its
  cells, terminator included; reading past the last cell is undefined in the source and is
  \<open>None\<close> here. A null pointer is the array with no cell.
\<close>

fun is_fmt_supported :: "AVPixelFormat \<Rightarrow> AVPixelFormat list \<Rightarrow> bool option" where
  "is_fmt_supported fmt [] = None"
| "is_fmt_supported fmt (x # xs) =
     (if x = AV_PIX_FMT_NONE then Some False
      else if x = fmt then Some True
      else is_fmt_supported fmt xs)"

definition get_input_format :: "FrameWriter \<Rightarrow> AVPixelFormat" where
  "get_input_format fw =
     (if format (params fw) = INPUT_FORMAT_BGR0 then AV_PIX_FMT_BGR0 else AV_PIX_FMT_RGB0)"

definition choose_sw_format :: "FrameWriter \<Rightarrow> AVCodec \<Rightarrow> AVPixelFormat option" where
  "choose_sw_format fw cdc =
     (let in_fmt = get_input_format fw in
      case is_fmt_supported in_fmt (pix_fmts cdc) of
        None \<Rightarrow> None
      | Some True \<Rightarrow> Some in_fmt
      | Some False \<Rightarrow>
          (case is_fmt_supported AV_PIX_FMT_YUV420P (pix_fmts cdc) of
             None \<Rightarrow> None
           | Some True \<Rightarrow> Some AV_PIX_FMT_YUV420P
           | Some False \<Rightarrow>
               (case pix_fmts cdc of [] \<Rightarrow> None | f # _ \<Rightarrow> Some f)))"

text \<open>The formats an array advertises: its cells before the terminator.\<close>

definition supported_formats :: "AVPixelFormat list \<Rightarrow> AVPixelFormat list" where
  "supported_formats arr = takeWhile (\<lambda>f. f \<noteq> AV_PIX_FMT_NONE) arr"

section \<open>Codec options\<close>

text \<open>
  \<open>std::string::find\<close>: the position of the first occurrence, \<open>None\<close> for \<open>npos\<close>.
\<close>

fun str_find :: "string \<Rightarrow> string \<Rightarrow> nat option" where
  "str_find [] pat = (if pat = [] then Some 0 else None)"
| "str_find (c # cs) pat =
     (if prefix pat (c # cs) then Some 0 else map_option Suc (str_find cs pat))"

text \<open>
  The static table of defaults, in the iteration order of \<open>std::map\<close> (ascending keys).
\<close>

definition default_x264_options :: "(string \<times> string) list" where
  "default_x264_options =
     [(''crf'', ''20''), (''preset'', ''ultrafast''), (''tune'', ''zerolatency'')]"

definition seed_default ::
  "string \<times> string \<Rightarrow> (string, string) mapping \<Rightarrow> (string, string) mapping" where
  "seed_default param opts =
     (if Mapping.lookup opts (fst param) = None
      then Mapping.update (fst param) (snd param) opts else opts)"

definition is_x264_family :: "string \<Rightarrow> bool" where
  "is_x264_family name =
     (str_find name ''libx264'' \<noteq> None \<or> str_find name ''libx265'' \<noteq> None)"

text \<open>
  \<open>load_codec_options\<close> updates the option map of the parameters and then sets every pair
  of it in the dictionary, in key order. The result is the updated map and the list of
  \<open>av_dict_set\<close> arguments.
\<close>

definition merged_codec_options :: "FrameWriterParams \<Rightarrow> (string, string) mapping" where
  "merged_codec_options prm =
     (if is_x264_family (codec prm)
      then fold seed_default default_x264_options (codec_options prm)
      else codec_options prm)"

definition dict_entries :: "(string, string) mapping \<Rightarrow> (string \<times> string) list" where
  "dict_entries opts =
     map (\<lambda>k. (k, the (Mapping.lookup opts k))) (Mapping.ordered_keys opts)"

definition load_codec_options ::
  "FrameWriter \<Rightarrow> FrameWriter \<times> (string \<times> string) list" where
  "load_codec_options fw =
     (let opts = merged_codec_options (params fw);
          fw' = fw\<lparr>params := (params fw)\<lparr>codec_options := opts\<rparr>\<rparr>
      in (fw', dict_entries opts))"

section \<open>The library and the call log\<close>

text \<open>
  One entry per library call the source makes, with the arguments the properties below
  need. \<open>Avcodec_encode_video2\<close> also records what the encoder answered: the packet, or
  \<open>None\<close> when \<open>got_output\<close> is 0. \<open>Cerr\<close> is a line written to the error stream on a
  path that does not exit (messages to the standard output are not modelled).
\<close>

datatype call =
    Av_log_set_level
  | Av_guess_format string
  | Avformat_alloc_output_context2 string
  | Av_dict_set string string
  | Avcodec_find_encoder_by_name string
  | Avformat_new_stream
  | Av_hwdevice_ctx_create string string
  | Av_hwframe_ctx_alloc
  | Av_hwdevice_get_hwframe_constraints
  | Av_hwframe_ctx_init
  | Av_buffer_unref string
  | Av_buffer_ref string
  | Sws_getContext AVPixelFormat AVPixelFormat
  | Avcodec_open2
  | Av_dict_free
  | Av_dump_format
  | Avio_open string
  | Avformat_write_header
  | Av_frame_alloc string
  | Av_frame_get_buffer
  | Av_hwframe_get_buffer
  | Av_hwframe_transfer_data AVFrame
  | Sws_scale "SwsContext option" int int int int
  | Avcodec_encode_video2 "AVFrame option" "AVPacket option"
  | Av_interleaved_write_frame AVPacket
  | Av_write_trailer
  | Avio_closep
  | Avcodec_close
  | Sws_freeContext "SwsContext option"
  | Av_frame_free string
  | Avformat_free_context
  | Cerr string

text \<open>
  The answers of the library. The set-up functions are called once each, so their answer is
  a function of their arguments. The encoder and the hardware device are called once per
  frame and keep a state of their own (\<open>'e\<close> and \<open>'d\<close>), which the model threads.
  \<open>avformat_write_header\<close> receives the container context by pointer and the muxer may
  replace the time base of the stream: its answer is the result and the time base the
  stream has afterwards.
\<close>

record ('e, 'd) ffmpeg =
  av_guess_format :: "string \<Rightarrow> AVOutputFormat option"
  avformat_alloc_output_context2 :: "string \<Rightarrow> int \<times> AVOutputFormat"
  avcodec_find_encoder_by_name :: "string \<Rightarrow> AVCodec option"
  avformat_new_stream :: "AVCodec \<Rightarrow> (AVStream \<times> AVCodecContext) option"
  av_hwdevice_ctx_create :: "string \<Rightarrow> string \<Rightarrow> int"
  av_hwframe_ctx_alloc :: "string \<Rightarrow> bool"
  av_hwdevice_get_hwframe_constraints :: "string \<Rightarrow> AVPixelFormat list option"
  av_hwframe_ctx_init :: "AVHWFramesContext \<Rightarrow> int"
  sws_getContext :: "int \<Rightarrow> int \<Rightarrow> AVPixelFormat \<Rightarrow> AVPixelFormat \<Rightarrow> bool"
  avcodec_open2 :: "AVCodecContext \<Rightarrow> AVCodec \<Rightarrow> (string \<times> string) list \<Rightarrow> int"
  avio_open :: "string \<Rightarrow> int"
  avformat_write_header :: "AVStream \<Rightarrow> int \<times> AVRational"
  av_frame_get_buffer :: "AVFrame \<Rightarrow> int \<times> int \<times> int"
  av_hwframe_get_buffer :: "AVFrame \<Rightarrow> int"
  av_hwframe_transfer_data :: "'d \<Rightarrow> AVFrame \<Rightarrow> int \<times> 'd"
  avcodec_encode_video2 :: "'e \<Rightarrow> AVFrame option \<Rightarrow> 'e \<times> AVPacket option"

record ('e, 'd) world =
  enc :: 'e
  dev :: 'd
  calls :: "call list"

type_synonym ('e, 'd) state = "('e, 'd) world \<times> FrameWriter"

text \<open>
  \<open>Exit\<close> is \<open>std::exit(-1)\<close> after the message; \<open>Undefined_behaviour\<close> is a read the
  language leaves undefined. Both carry the world at that point.
\<close>

datatype fatal = Exit string | Undefined_behaviour string

type_synonym ('e, 'd) result = "(fatal \<times> ('e, 'd) world) + ('e, 'd) state"

definition log :: "call \<Rightarrow> ('e, 'd) world \<Rightarrow> ('e, 'd) world" where
  "log c w = w\<lparr>calls := calls w @ [c]\<rparr>"

subsection \<open>Library functions the model computes\<close>

text \<open>
  \<open>av_rescale_q\<close> of libavutil, as documented: \<open>a * bq / cq\<close> rounded to the nearest
  integer, halfway cases away from zero; \<open>av_packet_rescale_ts\<close> applies it to the valid
  timestamps of a packet. \<open>AV_NOPTS_VALUE\<close> marks an unset timestamp.
\<close>

definition AV_NOPTS_VALUE :: int where
  "AV_NOPTS_VALUE = - (2 ^ 63)"

definition av_rescale_q :: "int \<Rightarrow> AVRational \<Rightarrow> AVRational \<Rightarrow> int" where
  "av_rescale_q a bq cq =
     (let b = fst bq * snd cq; c = fst cq * snd bq; r = c div 2
      in if a < 0 then - ((- a * b + r) div c) else (a * b + r) div c)"

definition av_packet_rescale_ts :: "AVPacket \<Rightarrow> AVRational \<Rightarrow> AVRational \<Rightarrow> AVPacket" where
  "av_packet_rescale_ts p src_tb dst_tb =
     p\<lparr>pkt_pts := (if pkt_pts p \<noteq> AV_NOPTS_VALUE
                     then av_rescale_q (pkt_pts p) src_tb dst_tb else pkt_pts p),
       pkt_dts := (if pkt_dts p \<noteq> AV_NOPTS_VALUE
                     then av_rescale_q (pkt_dts p) src_tb dst_tb else pkt_dts p),
       pkt_duration := (if pkt_duration p > 0
                     then av_rescale_q (pkt_duration p) src_tb dst_tb else pkt_duration p)\<rparr>"

definition av_init_packet :: AVPacket where
  "av_init_packet =
     \<lparr>pkt_pts = AV_NOPTS_VALUE, pkt_dts = AV_NOPTS_VALUE, pkt_duration = 0,
      pkt_stream_index = 0, pkt_data = []\<rparr>"

definition av_frame_alloc :: AVFrame where
  "av_frame_alloc =
     \<lparr>fr_format = AV_PIX_FMT_NONE, fr_width = 0, fr_height = 0, fr_data0 = 0,
      fr_linesize0 = 0, fr_pts = AV_NOPTS_VALUE, fr_hw_frames_ctx = False\<rparr>"

text \<open>The value of a C \<open>int\<close> expression: 32 bits, two's complement.\<close>

definition int32 :: "int \<Rightarrow> int" where
  "int32 x = (x + 2 ^ 31) mod 2 ^ 32 - 2 ^ 31"

section \<open>Construction\<close>

subsection \<open>\<open>FrameWriter::init_hw_accel\<close>\<close>

definition init_hw_accel :: "('e, 'd) ffmpeg \<Rightarrow> ('e, 'd) state \<Rightarrow> ('e, 'd) result" where
  "init_hw_accel lib s =
     (case s of (w, fw) \<Rightarrow>
        let device = hw_device (params fw);
            ret = av_hwdevice_ctx_create lib ''vaapi'' device;
            w1 = log (Av_hwdevice_ctx_create ''vaapi'' device) w
        in if ret \<noteq> 0 then Inl (Exit ''Failed to create hw encoding device'', w1)
           else
             let fw1 = fw\<lparr>hw_device_context := Some device\<rparr>;
                 w2 = log Av_hwframe_ctx_alloc w1
             in if \<not> av_hwframe_ctx_alloc lib device
                then Inl (Exit ''Failed to initialize hw frame context'',
                          log (Av_buffer_unref ''hw_device_context'') w2)
                else
                  let w3 = log Av_hwdevice_get_hwframe_constraints w2
                  in (case av_hwdevice_get_hwframe_constraints lib device of
                       None \<Rightarrow>
                         Inl (Exit ''Failed to get hwframe constraints'',
                              log (Av_buffer_unref ''hw_device_context'') w3)
                     | Some [] \<Rightarrow>
                         Inl (Undefined_behaviour ''valid_hw_formats[0] read outside the array'', w3)
                     | Some (fmt0 # _) \<Rightarrow>
                         let ctx = \<lparr>hwf_width = width (params fw1),
                                    hwf_height = height (params fw1),
                                    hwf_format = fmt0,
                                    hwf_sw_format = AV_PIX_FMT_NV12\<rparr>;
                             fw2 = fw1\<lparr>hw_frame_context := Some ctx\<rparr>;
                             w4 = log Av_hwframe_ctx_init w3
                         in if av_hwframe_ctx_init lib ctx \<noteq> 0
                            then Inl (Exit ''Failed to initialize hwframe context'',
                                      log (Av_buffer_unref ''hw_frame_context'')
                                        (log (Av_buffer_unref ''hw_device_context'') w4))
                            else Inr (w4, fw2)))"

subsection \<open>\<open>FrameWriter::init_sws\<close>\<close>

definition init_sws :: "('e, 'd) ffmpeg \<Rightarrow> ('e, 'd) state \<Rightarrow> ('e, 'd) result" where
  "init_sws lib s =
     (case s of (w, fw) \<Rightarrow>
        let src = get_input_format fw;
            dst = cc_pix_fmt (codecCtx fw);
            w1 = log (Sws_getContext src dst) w
        in if sws_getContext lib (width (params fw)) (height (params fw)) src dst
           then Inr (w1, fw\<lparr>swsCtx := Some \<lparr>sws_src_format = src, sws_dst_format = dst\<rparr>\<rparr>)
           else Inl (Exit ''Failed to create sws context'', w1))"

subsection \<open>\<open>FrameWriter::init_codec\<close>\<close>

text \<open>
  The function in three parts, in the order of the source: the options, the encoder and the
  stream (lines 129 to 149); the choice between the hardware and the software path (lines
  151 to 162); opening the encoder and the output and writing the header (lines 164 to 191).
\<close>

definition init_codec_path ::
  "('e, 'd) ffmpeg \<Rightarrow> AVCodec \<Rightarrow> ('e, 'd) state \<Rightarrow> ('e, 'd) result" where
  "init_codec_path lib cdc s =
     (case s of (w, fw) \<Rightarrow>
        if str_find (codec (params fw)) ''vaapi'' \<noteq> None
        then
          (case init_hw_accel lib
                  (w, fw\<lparr>codecCtx := (codecCtx fw)\<lparr>cc_pix_fmt := AV_PIX_FMT_VAAPI\<rparr>\<rparr>) of
             Inl e \<Rightarrow> Inl e
           | Inr (w1, fw1) \<Rightarrow>
               Inr (log (Av_buffer_ref ''hw_frame_context'') w1,
                    fw1\<lparr>codecCtx := (codecCtx fw1)\<lparr>cc_hw_frames_ctx := True\<rparr>\<rparr>))
        else
          (case choose_sw_format fw cdc of
             None \<Rightarrow> Inl (Undefined_behaviour ''pix_fmts read outside the array'', w)
           | Some fmt \<Rightarrow>
               init_sws lib (w, fw\<lparr>codecCtx := (codecCtx fw)\<lparr>cc_pix_fmt := fmt\<rparr>\<rparr>)))"

definition init_codec_open ::
  "('e, 'd) ffmpeg \<Rightarrow> AVCodec \<Rightarrow> (string \<times> string) list \<Rightarrow> ('e, 'd) state
     \<Rightarrow> ('e, 'd) result" where
  "init_codec_open lib cdc options s =
     (case s of (w, fw) \<Rightarrow>
        let fw1 = (if AVFMT_GLOBALHEADER (fmtCtx_oformat fw)
                   then fw\<lparr>codecCtx := (codecCtx fw)\<lparr>cc_global_header := True\<rparr>\<rparr>
                   else fw);
            err = avcodec_open2 lib (codecCtx fw1) cdc options;
            w1 = log Avcodec_open2 w
        in if err < 0 then Inl (Exit ''avcodec_open2 failed'', w1)
           else
             let w2 = log Av_dict_free w1;
                 fw2 = fw1\<lparr>stream := (stream fw1)\<lparr>st_time_base := (1, FPS)\<rparr>\<rparr>;
                 w3 = log Av_dump_format w2;
                 w4 = log (Avio_open (file_path (params fw2))) w3
             in if avio_open lib (file_path (params fw2)) \<noteq> 0
                then Inl (Exit ''avio_open failed'', w4)
                else
                  let w5 = log Avformat_write_header w4
                  in (case avformat_write_header lib (stream fw2) of
                        (ret, time_base) \<Rightarrow>
                          let fw3 = fw2\<lparr>stream := (stream fw2)\<lparr>st_time_base := time_base\<rparr>\<rparr>
                          in if ret \<noteq> 0
                             then Inl (Exit ''Failed to write file header'', w5)
                             else Inr (log Av_dict_free w5, fw3)))"

definition init_codec :: "('e, 'd) ffmpeg \<Rightarrow> ('e, 'd) state \<Rightarrow> ('e, 'd) result" where
  "init_codec lib s =
     (case s of (w, fw) \<Rightarrow>
        let (fw1, options) = load_codec_options fw;
            w1 = w\<lparr>calls := calls w @ map (\<lambda>(k, v). Av_dict_set k v) options\<rparr>;
            w2 = log (Avcodec_find_encoder_by_name (codec (params fw1))) w1
        in (case avcodec_find_encoder_by_name lib (codec (params fw1)) of
             None \<Rightarrow> Inl (Exit ''Failed to find the given codec'', w2)
           | Some cdc \<Rightarrow>
               let w3 = log Avformat_new_stream w2
               in (case avformat_new_stream lib cdc of
                    None \<Rightarrow> Inl (Exit ''Failed to open stream'', w3)
                  | Some (st, cctx) \<Rightarrow>
                      let fw2 = fw1\<lparr>stream := st,
                                    codecCtx := cctx\<lparr>cc_width := width (params fw1),
                                                     cc_height := height (params fw1),
                                                     cc_time_base := (1, FPS)\<rparr>\<rparr>
                      in (case init_codec_path lib cdc (w3, fw2) of
                           Inl e \<Rightarrow> Inl e
                         | Inr s1 \<Rightarrow> init_codec_open lib cdc options s1))))"

subsection \<open>The constructor\<close>

text \<open>
  Modelled from the spec: the initial values of the members, which frame-writer.hpp
  declares. The pointers the source tests before it has assigned them (the hardware device
  context on the software path, the scaler context at release) start as null.
\<close>

definition new_object :: "FrameWriterParams \<Rightarrow> FrameWriter" where
  "new_object prm =
     \<lparr>params = prm,
      outputFmt = \<lparr>AVFMT_NOFILE = False, AVFMT_GLOBALHEADER = False\<rparr>,
      fmtCtx_oformat = \<lparr>AVFMT_NOFILE = False, AVFMT_GLOBALHEADER = False\<rparr>,
      stream = \<lparr>st_index = 0, st_time_base = (0, 1)\<rparr>,
      codecCtx = \<lparr>cc_width = 0, cc_height = 0, cc_time_base = (0, 1),
                  cc_pix_fmt = AV_PIX_FMT_NONE, cc_global_header = False,
                  cc_hw_frames_ctx = False\<rparr>,
      swsCtx = None,
      encoder_frame = av_frame_alloc,
      hw_device_context = None,
      hw_frame_context = None,
      hw_frame = av_frame_alloc,
      pkt = av_init_packet\<rparr>"

text \<open>Lines 229 to 257: the frame of the encoder and, on the hardware path, the device frame.\<close>

definition alloc_frames :: "('e, 'd) ffmpeg \<Rightarrow> ('e, 'd) state \<Rightarrow> ('e, 'd) result" where
  "alloc_frames lib s =
     (case s of (w, fw) \<Rightarrow>
        let w1 = log (Av_frame_alloc ''encoder_frame'') w;
            fr = av_frame_alloc
                   \<lparr>fr_format := (if hw_device_context fw \<noteq> None
                                   then get_input_format fw else cc_pix_fmt (codecCtx fw)),
                    fr_width := width (params fw),
                    fr_height := height (params fw)\<rparr>;
            w2 = log Av_frame_get_buffer w1
        in case av_frame_get_buffer lib fr of (ret, data, linesize) \<Rightarrow>
             if ret \<noteq> 0 then Inl (Exit ''Failed to allocate frame buffer'', w2)
             else
               let fw1 = fw\<lparr>encoder_frame := fr\<lparr>fr_data0 := data, fr_linesize0 := linesize\<rparr>\<rparr>
               in if hw_device_context fw1 \<noteq> None
                  then
                    (case hw_frame_context fw1 of
                       None \<Rightarrow> Inl (Undefined_behaviour ''hw_frame_context is null'', w2)
                     | Some frctx \<Rightarrow>
                         let w3 = log (Av_frame_alloc ''hw_frame'') w2;
                             hf = av_frame_alloc
                                    \<lparr>fr_format := hwf_format frctx,
                                     fr_width := width (params fw1),
                                     fr_height := height (params fw1),
                                     fr_hw_frames_ctx := True\<rparr>;
                             w4 = log (Av_buffer_ref ''hw_frame_context'') w3;
                             w5 = log Av_hwframe_get_buffer w4
                         in if av_hwframe_get_buffer lib hf \<noteq> 0
                            then Inl (Exit ''failed to hw frame buffer'', w5)
                            else Inr (w5, fw1\<lparr>hw_frame := hf\<rparr>))
                  else Inr (w2, fw1))"

definition FrameWriter_ctor ::
  "('e, 'd) ffmpeg \<Rightarrow> FrameWriterParams \<Rightarrow> ('e, 'd) world \<Rightarrow> ('e, 'd) result" where
  "FrameWriter_ctor lib prm w =
     (let fw = new_object prm;
          w1 = (if enable_ffmpeg_debug_output prm then log Av_log_set_level w else w);
          w2 = log (Av_guess_format (file_path prm)) w1
      in case av_guess_format lib (file_path prm) of
           None \<Rightarrow> Inl (Exit ''Failed to guess output format for file'', w2)
         | Some ofmt \<Rightarrow>
             let fw1 = fw\<lparr>outputFmt := ofmt\<rparr>;
                 w3 = log (Avformat_alloc_output_context2 (file_path prm)) w2
             in case avformat_alloc_output_context2 lib (file_path prm) of
                  (ret, oformat) \<Rightarrow>
                    if ret < 0 then Inl (Exit ''Failed to allocate output context'', w3)
                    else
                      (case init_codec lib (w3, fw1\<lparr>fmtCtx_oformat := oformat\<rparr>) of
                         Inl e \<Rightarrow> Inl e
                       | Inr s1 \<Rightarrow> alloc_frames lib s1))"

section \<open>Submitting a frame\<close>

text \<open>
  \<open>finish_frame\<close>: rescale the timestamps of the packet, set its stream, write it, release it.
\<close>

definition finish_frame :: "('e, 'd) state \<Rightarrow> ('e, 'd) state" where
  "finish_frame s =
     (case s of (w, fw) \<Rightarrow>
        let p = av_packet_rescale_ts (pkt fw) (1, 1000) (st_time_base (stream fw));
            p1 = p\<lparr>pkt_stream_index := st_index (stream fw)\<rparr>
        in (log (Av_interleaved_write_frame p1) w, fw\<lparr>pkt := av_init_packet\<rparr>))"

text \<open>
  Lines 297 to 306 of \<open>add_frame\<close>. \<open>output_frame\<close> points to one of the two frames of the
  object.
\<close>

datatype frame_ref = Encoder_frame | Hw_frame

definition encode_frame ::
  "('e, 'd) ffmpeg \<Rightarrow> frame_ref \<Rightarrow> int \<Rightarrow> ('e, 'd) state \<Rightarrow> ('e, 'd) state" where
  "encode_frame lib output_frame msec s =
     (case s of (w, fw) \<Rightarrow>
        let fw1 = (case output_frame of
                     Encoder_frame \<Rightarrow> fw\<lparr>encoder_frame := (encoder_frame fw)\<lparr>fr_pts := msec\<rparr>\<rparr>
                   | Hw_frame \<Rightarrow> fw\<lparr>hw_frame := (hw_frame fw)\<lparr>fr_pts := msec\<rparr>\<rparr>);
            frame = (case output_frame of
                       Encoder_frame \<Rightarrow> encoder_frame fw1
                     | Hw_frame \<Rightarrow> hw_frame fw1);
            fw2 = fw1\<lparr>pkt := av_init_packet\<rparr>
        in case avcodec_encode_video2 lib (enc w) (Some frame) of
             (e, got_output) \<Rightarrow>
               let w1 = log (Avcodec_encode_video2 (Some frame) got_output) (w\<lparr>enc := e\<rparr>)
               in (case got_output of
                    None \<Rightarrow> (w1, fw2)
                  | Some p \<Rightarrow> finish_frame (w1, fw2\<lparr>pkt := p\<rparr>)))"

text \<open>
  Lines 262 to 269 of \<open>add_frame\<close>, "calculate data after y-inversion": the pointer to the
  first row handed on and the stride, from the address of the buffer. The stride and the
  offset of the last row are C \<open>int\<close> expressions.
\<close>

definition y_inversion :: "FrameWriter \<Rightarrow> int \<Rightarrow> bool \<Rightarrow> int \<times> int" where
  "y_inversion fw pixels y_invert =
     (let stride0 = int32 (4 * width (params fw))
      in if y_invert
         then (pixels + int32 (stride0 * (height (params fw) - 1)), int32 (stride0 * (- 1)))
         else (pixels, stride0))"

definition add_frame ::
  "('e, 'd) ffmpeg \<Rightarrow> int \<Rightarrow> int \<Rightarrow> bool \<Rightarrow> ('e, 'd) state \<Rightarrow> ('e, 'd) state" where
  "add_frame lib pixels msec y_invert s =
     (case s of (w, fw) \<Rightarrow>
        case y_inversion fw pixels y_invert of (formatted_pixels, stride) \<Rightarrow>
           if hw_device_context fw \<noteq> None
           then
             let fw1 = fw\<lparr>encoder_frame :=
                           (encoder_frame fw)\<lparr>fr_data0 := formatted_pixels,
                                             fr_linesize0 := stride\<rparr>\<rparr>
             in (case av_hwframe_transfer_data lib (dev w) (encoder_frame fw1) of
                  (ret, d) \<Rightarrow>
                    let w1 = log (Av_hwframe_transfer_data (encoder_frame fw1)) (w\<lparr>dev := d\<rparr>)
                    in if ret \<noteq> 0
                       then (log (Cerr ''Failed to upload data to the gpu!'') w1, fw1)
                       else encode_frame lib Hw_frame msec (w1, fw1))
           else if get_input_format fw = cc_pix_fmt (codecCtx fw)
           then
             encode_frame lib Encoder_frame msec
               (w, fw\<lparr>encoder_frame :=
                        (encoder_frame fw)\<lparr>fr_data0 := formatted_pixels,
                                          fr_linesize0 := stride\<rparr>\<rparr>)
           else
             encode_frame lib Encoder_frame msec
               (log (Sws_scale (swsCtx fw) formatted_pixels stride 0 (height (params fw))) w,
                fw))"

section \<open>Teardown\<close>

text \<open>
  The loop of the destructor asks the encoder for delayed packets until it has none. The
  encoder decides how long that takes: the loop is a partial function, \<open>None\<close> when it
  does not end.
\<close>

partial_function (option) write_delayed ::
  "('e, 'd) ffmpeg \<Rightarrow> ('e, 'd) state \<Rightarrow> ('e, 'd) state option" where
  "write_delayed lib s =
     (case avcodec_encode_video2 lib (enc (fst s)) None of
        (e, got_output) \<Rightarrow>
          (case got_output of
             None \<Rightarrow>
               Some (log (Avcodec_encode_video2 None None) ((fst s)\<lparr>enc := e\<rparr>), snd s)
           | Some p \<Rightarrow>
               write_delayed lib
                 (finish_frame
                    (log (Avcodec_encode_video2 None (Some p)) ((fst s)\<lparr>enc := e\<rparr>),
                     (snd s)\<lparr>pkt := p\<rparr>))))"

definition release_all :: "('e, 'd) state \<Rightarrow> ('e, 'd) state" where
  "release_all s =
     (case s of (w, fw) \<Rightarrow>
        let w1 = log Av_write_trailer w;
            w2 = (if \<not> AVFMT_NOFILE (outputFmt fw) then log Avio_closep w1 else w1);
            w3 = log Avcodec_close w2;
            w4 = log (Sws_freeContext (swsCtx fw)) w3;
            w5 = log (Av_frame_free ''encoder_frame'') w4;
            w6 = log Avformat_free_context w5
        in (w6, fw))"

definition FrameWriter_dtor ::
  "('e, 'd) ffmpeg \<Rightarrow> ('e, 'd) state \<Rightarrow> ('e, 'd) state option" where
  "FrameWriter_dtor lib s = map_option release_all (write_delayed lib s)"

section \<open>A session, and what the call log shows\<close>

text \<open>
  A session is a construction, any number of \<open>add_frame\<close> calls and the destruction. A
  submitted frame is the address of its buffer, its timestamp in milliseconds and the flip
  flag.
\<close>

type_synonym submitted = "int \<times> int \<times> bool"

definition add_frames ::
  "('e, 'd) ffmpeg \<Rightarrow> submitted list \<Rightarrow> ('e, 'd) state \<Rightarrow> ('e, 'd) state" where
  "add_frames lib frames s =
     fold (\<lambda>fr. add_frame lib (fst fr) (fst (snd fr)) (snd (snd fr))) frames s"

text \<open>
  The encoder, asked for delayed packets, reports that it has none after at most \<open>n\<close>
  packets.
\<close>

fun flush_ends_within :: "('e, 'd) ffmpeg \<Rightarrow> nat \<Rightarrow> 'e \<Rightarrow> bool" where
  "flush_ends_within lib 0 e = (snd (avcodec_encode_video2 lib e None) = None)"
| "flush_ends_within lib (Suc n) e =
     (case avcodec_encode_video2 lib e None of
        (e1, None) \<Rightarrow> True
      | (e1, Some p) \<Rightarrow> flush_ends_within lib n e1)"

text \<open>The packets the encoder reported, the packets written, and the frames encoded.\<close>

definition packet_produced :: "call \<Rightarrow> AVPacket list" where
  "packet_produced c = (case c of Avcodec_encode_video2 f (Some p) \<Rightarrow> [p] | _ \<Rightarrow> [])"

definition packet_written :: "call \<Rightarrow> AVPacket list" where
  "packet_written c = (case c of Av_interleaved_write_frame p \<Rightarrow> [p] | _ \<Rightarrow> [])"

definition frame_encoded :: "call \<Rightarrow> AVFrame list" where
  "frame_encoded c = (case c of Avcodec_encode_video2 (Some f) got \<Rightarrow> [f] | _ \<Rightarrow> [])"

definition packets_produced :: "call list \<Rightarrow> AVPacket list" where
  "packets_produced tr = concat (map packet_produced tr)"

definition packets_written :: "call list \<Rightarrow> AVPacket list" where
  "packets_written tr = concat (map packet_written tr)"

definition frames_encoded :: "call list \<Rightarrow> AVFrame list" where
  "frames_encoded tr = concat (map frame_encoded tr)"

text \<open>The calls that write to the container: header, packet, trailer.\<close>

definition is_container_write :: "call \<Rightarrow> bool" where
  "is_container_write c =
     (case c of
        Avformat_write_header \<Rightarrow> True
      | Av_interleaved_write_frame p \<Rightarrow> True
      | Av_write_trailer \<Rightarrow> True
      | _ \<Rightarrow> False)"

definition container_writes :: "call list \<Rightarrow> call list" where
  "container_writes tr = filter is_container_write tr"

text \<open>The calls that reach the encoder or the muxer.\<close>

definition is_encoder_or_muxer_call :: "call \<Rightarrow> bool" where
  "is_encoder_or_muxer_call c =
     (case c of
        Avcodec_encode_video2 f got \<Rightarrow> True
      | Av_interleaved_write_frame p \<Rightarrow> True
      | Av_write_trailer \<Rightarrow> True
      | Avformat_write_header \<Rightarrow> True
      | _ \<Rightarrow> False)"

text \<open>
  What \<open>finish_frame\<close> makes of a packet of the encoder on a stream: timestamps rescaled
  from milliseconds to the time base of the stream, stream index set.
\<close>

definition stream_packet :: "AVStream \<Rightarrow> AVPacket \<Rightarrow> AVPacket" where
  "stream_packet st p =
     (av_packet_rescale_ts p (1, 1000) (st_time_base st))\<lparr>pkt_stream_index := st_index st\<rparr>"

text \<open>
  The calls of one round of the flush loop that got a packet: the encoder call without a
  frame, and the write of the packet.
\<close>

definition flush_round :: "AVStream \<Rightarrow> AVPacket \<Rightarrow> call list" where
  "flush_round st p =
     [Avcodec_encode_video2 None (Some p), Av_interleaved_write_frame (stream_packet st p)]"

text \<open>
  The view of the input buffer a call is given: the pointer to the first row and the
  stride. Row \<open>i\<close> of a view starts \<open>i\<close> strides after the pointer.
\<close>

definition source_view :: "call \<Rightarrow> (int \<times> int) option" where
  "source_view c =
     (case c of
        Av_hwframe_transfer_data f \<Rightarrow> Some (fr_data0 f, fr_linesize0 f)
      | Sws_scale ctx p stride y h \<Rightarrow> Some (p, stride)
      | Avcodec_encode_video2 (Some f) got \<Rightarrow> Some (fr_data0 f, fr_linesize0 f)
      | _ \<Rightarrow> None)"

definition row_start :: "int \<times> int \<Rightarrow> nat \<Rightarrow> int" where
  "row_start view i = fst view + int i * snd view"

definition rows_presented :: "int \<times> int \<Rightarrow> int \<Rightarrow> int list" where
  "rows_presented view h = map (row_start view) [0..<nat h]"

text \<open>The resources a session holds, and the calls that acquire and release them.\<close>

datatype resource =
    Container_context
  | Hw_device
  | Hw_frame_pool
  | Scaler_context
  | Codec_session
  | Output_handle
  | Frame_buffer string

definition acquired :: "call \<Rightarrow> resource list" where
  "acquired c =
     (case c of
        Avformat_alloc_output_context2 f \<Rightarrow> [Container_context]
      | Av_hwdevice_ctx_create t d \<Rightarrow> [Hw_device]
      | Av_hwframe_ctx_alloc \<Rightarrow> [Hw_frame_pool]
      | Sws_getContext src dst \<Rightarrow> [Scaler_context]
      | Avcodec_open2 \<Rightarrow> [Codec_session]
      | Avio_open f \<Rightarrow> [Output_handle]
      | Av_frame_alloc n \<Rightarrow> [Frame_buffer n]
      | _ \<Rightarrow> [])"

definition released :: "call \<Rightarrow> resource list" where
  "released c =
     (case c of
        Avformat_free_context \<Rightarrow> [Container_context]
      | Av_buffer_unref n \<Rightarrow>
          (if n = ''hw_device_context'' then [Hw_device]
           else if n = ''hw_frame_context'' then [Hw_frame_pool] else [])
      | Sws_freeContext ctx \<Rightarrow> (case ctx of None \<Rightarrow> [] | Some c \<Rightarrow> [Scaler_context])
      | Avcodec_close \<Rightarrow> [Codec_session]
      | Avio_closep \<Rightarrow> [Output_handle]
      | Av_frame_free n \<Rightarrow> [Frame_buffer n]
      | _ \<Rightarrow> [])"

definition acquisitions :: "call list \<Rightarrow> resource list" where
  "acquisitions tr = concat (map acquired tr)"

definition releases :: "call list \<Rightarrow> resource list" where
  "releases tr = concat (map released tr)"

text \<open>The hardware path is in use: the test \<open>if (hw_device_context)\<close> of the source.\<close>

definition hw_path_active :: "('e, 'd) state \<Rightarrow> bool" where
  "hw_path_active s = (hw_device_context (snd s) \<noteq> None)"

section \<open>A concrete library\<close>

text \<open>
  A library whose set-up calls all succeed, whose encoder holds one frame back (it answers
  each frame with the packet of the one before, and the flush with the packet it holds),
  and whose device fails the second transfer only. The encoder named \<open>libx264rgb\<close> takes
  the BGR0 layout directly; every other encoder takes planar YUV 4:2:0 only.
\<close>

definition example_packet :: "AVFrame \<Rightarrow> AVPacket" where
  "example_packet f =
     \<lparr>pkt_pts = fr_pts f, pkt_dts = fr_pts f, pkt_duration = 0, pkt_stream_index = 0,
      pkt_data = []\<rparr>"

definition example_encode ::
  "AVPacket list \<Rightarrow> AVFrame option \<Rightarrow> AVPacket list \<times> AVPacket option" where
  "example_encode held frame =
     (case frame of
        Some f \<Rightarrow>
          (case held of
             [] \<Rightarrow> ([example_packet f], None)
           | p # ps \<Rightarrow> (ps @ [example_packet f], Some p))
      | None \<Rightarrow>
          (case held of [] \<Rightarrow> ([], None) | p # ps \<Rightarrow> (ps, Some p)))"

definition example_transfer :: "nat \<Rightarrow> AVFrame \<Rightarrow> int \<times> nat" where
  "example_transfer n f = (if n = 1 then - 5 else 0, Suc n)"

definition example_lib :: "(AVPacket list, nat) ffmpeg" where
  "example_lib =
     \<lparr>av_guess_format = (\<lambda>f. Some \<lparr>AVFMT_NOFILE = False, AVFMT_GLOBALHEADER = True\<rparr>),
      avformat_alloc_output_context2 =
        (\<lambda>f. (0, \<lparr>AVFMT_NOFILE = False, AVFMT_GLOBALHEADER = True\<rparr>)),
      avcodec_find_encoder_by_name =
        (\<lambda>n. Some \<lparr>codec_name = n,
                    pix_fmts = (if n = ''libx264rgb''
                                then [AV_PIX_FMT_BGR0, AV_PIX_FMT_NONE]
                                else [AV_PIX_FMT_YUV420P, AV_PIX_FMT_NONE])\<rparr>),
      avformat_new_stream =
        (\<lambda>c. Some (\<lparr>st_index = 0, st_time_base = (0, 1)\<rparr>,
                    \<lparr>cc_width = 0, cc_height = 0, cc_time_base = (0, 1),
                     cc_pix_fmt = AV_PIX_FMT_NONE, cc_global_header = False,
                     cc_hw_frames_ctx = False\<rparr>)),
      av_hwdevice_ctx_create = (\<lambda>t d. 0),
      av_hwframe_ctx_alloc = (\<lambda>d. True),
      av_hwdevice_get_hwframe_constraints = (\<lambda>d. Some [AV_PIX_FMT_VAAPI, AV_PIX_FMT_NONE]),
      av_hwframe_ctx_init = (\<lambda>c. 0),
      sws_getContext = (\<lambda>w h src dst. True),
      avcodec_open2 = (\<lambda>ctx c opts. 0),
      avio_open = (\<lambda>f. 0),
      avformat_write_header = (\<lambda>st. (0, st_time_base st)),
      av_frame_get_buffer = (\<lambda>f. (0, 4096, 4 * fr_width f)),
      av_hwframe_get_buffer = (\<lambda>f. 0),
      av_hwframe_transfer_data = example_transfer,
      avcodec_encode_video2 = example_encode\<rparr>"

definition example_world :: "(AVPacket list, nat) world" where
  "example_world = \<lparr>enc = [], dev = 0, calls = []\<rparr>"

definition example_params :: FrameWriterParams where
  "example_params =
     \<lparr>file_path = ''out.mp4'', width = 4, height = 3, format = INPUT_FORMAT_BGR0,
      codec = ''libx264'', hw_device = [], codec_options = Mapping.empty,
      enable_ffmpeg_debug_output = False\<rparr>"

definition example_frames :: "submitted list" where
  "example_frames = [(8192, 0, False), (8192, 1000, True)]"

definition example_constructed :: "(AVPacket list, nat) state" where
  "example_constructed = projr (FrameWriter_ctor example_lib example_params example_world)"

definition example_submitted :: "(AVPacket list, nat) state" where
  "example_submitted = add_frames example_lib example_frames example_constructed"

text \<open>
  Variations of the configuration: a hardware encoder; a device identifier with a software
  encoder; an encoder that takes the native layout; a caller option.
\<close>

definition example_hw_params :: FrameWriterParams where
  "example_hw_params = example_params\<lparr>codec := ''h264_vaapi''\<rparr>"

definition example_device_params :: FrameWriterParams where
  "example_device_params = example_params\<lparr>hw_device := ''/dev/dri/renderD128''\<rparr>"

definition example_rgb_params :: FrameWriterParams where
  "example_rgb_params = example_params\<lparr>codec := ''libx264rgb''\<rparr>"

definition example_rgb_constructed :: "(AVPacket list, nat) state" where
  "example_rgb_constructed =
     projr (FrameWriter_ctor example_lib example_rgb_params example_world)"

definition example_device_constructed :: "(AVPacket list, nat) state" where
  "example_device_constructed =
     projr (FrameWriter_ctor example_lib example_device_params example_world)"

definition example_options :: "(string, string) mapping" where
  "example_options = Mapping.update ''crf'' ''10'' Mapping.empty"

definition example_finished :: "(AVPacket list, nat) state" where
  "example_finished = the (FrameWriter_dtor example_lib example_submitted)"

text \<open>
  The hardware session: constructed, after one frame (the next transfer is the one the
  device fails), and the frame staged for that transfer; and the whole session, finished.
\<close>

definition example_hw_constructed :: "(AVPacket list, nat) state" where
  "example_hw_constructed =
     projr (FrameWriter_ctor example_lib example_hw_params example_world)"

definition example_hw_running :: "(AVPacket list, nat) state" where
  "example_hw_running = add_frames example_lib [(8192, 0, False)] example_hw_constructed"

definition example_staged :: AVFrame where
  "example_staged =
     (encoder_frame (snd example_hw_running))
       \<lparr>fr_data0 := fst (y_inversion (snd example_hw_running) 8192 True),
        fr_linesize0 := snd (y_inversion (snd example_hw_running) 8192 True)\<rparr>"

definition example_hw_submitted :: "(AVPacket list, nat) state" where
  "example_hw_submitted = add_frames example_lib example_frames example_hw_constructed"

definition example_hw_finished :: "(AVPacket list, nat) state" where
  "example_hw_finished = the (FrameWriter_dtor example_lib example_hw_submitted)"

text \<open>
  An encoder whose array of formats has a cell after the terminator: the cell is not part
  of the list.
\<close>

definition example_codec :: AVCodec where
  "example_codec =
     \<lparr>codec_name = ''mpeg4'',
      pix_fmts = [AV_PIX_FMT_OTHER 7, AV_PIX_FMT_YUV420P, AV_PIX_FMT_NONE, AV_PIX_FMT_BGR0]\<rparr>"

text \<open>An encoder that advertises no format: the first cell of its array is the terminator.\<close>

definition example_empty_codec :: AVCodec where
  "example_empty_codec = \<lparr>codec_name = ''none'', pix_fmts = [AV_PIX_FMT_NONE]\<rparr>"

section \<open>Notions used in the statements\<close>

text \<open>
  The members that construction sets and that neither \<open>add_frame\<close> nor the flush loop
  writes.
\<close>

definition settings ::
  "FrameWriter \<Rightarrow>
     FrameWriterParams \<times> AVOutputFormat \<times> AVOutputFormat \<times> AVStream \<times> AVCodecContext
       \<times> SwsContext option \<times> string option \<times> AVHWFramesContext option" where
  "settings fw =
     (params fw, outputFmt fw, fmtCtx_oformat fw, stream fw, codecCtx fw, swsCtx fw,
      hw_device_context fw, hw_frame_context fw)"

text \<open>
  The calls of one \<open>add_frame\<close>: every container write is the write of a packet the encoder
  reported in this call, in order; a frame given to the encoder carries the submitted
  timestamp; nothing is acquired or released.
\<close>

definition submit_calls :: "AVStream \<Rightarrow> int \<Rightarrow> call list \<Rightarrow> bool" where
  "submit_calls st msec new \<longleftrightarrow>
     container_writes new =
       map (\<lambda>p. Av_interleaved_write_frame (stream_packet st p)) (packets_produced new)
   \<and> list_all (\<lambda>f. fr_pts f = msec) (frames_encoded new)
   \<and> acquisitions new = [] \<and> releases new = []"

text \<open>What a construction acquires, in order, on each path.\<close>

definition software_acquisitions :: "resource list" where
  "software_acquisitions =
     [Container_context, Scaler_context, Codec_session, Output_handle,
      Frame_buffer ''encoder_frame'']"

definition hardware_acquisitions :: "resource list" where
  "hardware_acquisitions =
     [Container_context, Hw_device, Hw_frame_pool, Codec_session, Output_handle,
      Frame_buffer ''encoder_frame'', Frame_buffer ''hw_frame'']"

text \<open>The calls of the destructor after the trailer.\<close>

definition release_calls :: "FrameWriter \<Rightarrow> call list" where
  "release_calls fw =
     (if AVFMT_NOFILE (outputFmt fw) then [] else [Avio_closep])
     @ [Avcodec_close, Sws_freeContext (swsCtx fw), Av_frame_free ''encoder_frame'',
        Avformat_free_context]"

text \<open>
  The flush loop with a bound on the number of its rounds: \<open>None\<close> when the bound is
  reached. Where it returns, the loop returns the same; it serves to evaluate the loop on
  the examples.
\<close>

fun write_delayed_bounded ::
  "nat \<Rightarrow> ('e, 'd) ffmpeg \<Rightarrow> ('e, 'd) state \<Rightarrow> ('e, 'd) state option" where
  "write_delayed_bounded 0 lib s = None"
| "write_delayed_bounded (Suc n) lib s =
     (case avcodec_encode_video2 lib (enc (fst s)) None of
        (e, got_output) \<Rightarrow>
          (case got_output of
             None \<Rightarrow>
               Some (log (Avcodec_encode_video2 None None) ((fst s)\<lparr>enc := e\<rparr>), snd s)
           | Some p \<Rightarrow>
               write_delayed_bounded n lib
                 (finish_frame
                    (log (Avcodec_encode_video2 None (Some p)) ((fst s)\<lparr>enc := e\<rparr>),
                     (snd s)\<lparr>pkt := p\<rparr>))))"

declare write_delayed.simps [code]

text \<open>
  Further inputs for the statements: a caller whose native layout is RGB0, an encoder that
  takes both native layouts, a libx265 configuration with one option of the caller, and a
  library whose muxer replaces the time base of the stream while writing the header (as
  the MP4 muxer does, which raises 1/60 to 1/15360), with the session made on it.
\<close>

definition example_rgb0_params :: FrameWriterParams where
  "example_rgb0_params = example_params\<lparr>format := INPUT_FORMAT_RGB0\<rparr>"

definition example_both_codec :: AVCodec where
  "example_both_codec =
     \<lparr>codec_name = ''ffv1'',
      pix_fmts = [AV_PIX_FMT_YUV420P, AV_PIX_FMT_BGR0, AV_PIX_FMT_RGB0, AV_PIX_FMT_NONE]\<rparr>"

definition example_x265_params :: FrameWriterParams where
  "example_x265_params = example_params\<lparr>codec := ''libx265'', codec_options := example_options\<rparr>"

definition example_mp4_lib :: "(AVPacket list, nat) ffmpeg" where
  "example_mp4_lib = example_lib\<lparr>avformat_write_header := (\<lambda>st. (0, (1, 15360)))\<rparr>"

definition example_mp4_constructed :: "(AVPacket list, nat) state" where
  "example_mp4_constructed =
     projr (FrameWriter_ctor example_mp4_lib example_params example_world)"

definition example_mp4_submitted :: "(AVPacket list, nat) state" where
  "example_mp4_submitted = add_frames example_mp4_lib example_frames example_mp4_constructed"

definition example_mp4_finished :: "(AVPacket list, nat) state" where
  "example_mp4_finished =
     release_all (the (write_delayed_bounded 2 example_mp4_lib example_mp4_submitted))"

section \<open>Auxiliary facts\<close>

lemmas call_defs = packet_produced_def packet_written_def frame_encoded_def
  is_container_write_def is_encoder_or_muxer_call_def source_view_def acquired_def released_def

lemmas log_defs = packets_produced_def packets_written_def frames_encoded_def
  container_writes_def acquisitions_def releases_def

lemma log_append:
  "packets_produced (a @ b) = packets_produced a @ packets_produced b"
  "packets_written (a @ b) = packets_written a @ packets_written b"
  "frames_encoded (a @ b) = frames_encoded a @ frames_encoded b"
  "container_writes (a @ b) = container_writes a @ container_writes b"
  "acquisitions (a @ b) = acquisitions a @ acquisitions b"
  "releases (a @ b) = releases a @ releases b"
  by (simp_all add: log_defs)

lemma log_Cons:
  "packets_produced (c # tr) = packet_produced c @ packets_produced tr"
  "packets_written (c # tr) = packet_written c @ packets_written tr"
  "frames_encoded (c # tr) = frame_encoded c @ frames_encoded tr"
  "container_writes (c # tr) = (if is_container_write c then [c] else []) @ container_writes tr"
  "acquisitions (c # tr) = acquired c @ acquisitions tr"
  "releases (c # tr) = released c @ releases tr"
  by (simp_all add: log_defs)

lemma log_Nil:
  "packets_produced [] = []" "packets_written [] = []" "frames_encoded [] = []"
  "container_writes [] = []" "acquisitions [] = []" "releases [] = []"
  by (simp_all add: log_defs)

lemmas log_simps = log_append log_Cons log_Nil

lemma finish_frame_eq:
  "finish_frame (w, fw) =
     (w\<lparr>calls := calls w @ [Av_interleaved_write_frame (stream_packet (stream fw) (pkt fw))]\<rparr>,
      fw\<lparr>pkt := av_init_packet\<rparr>)"
  by (simp add: finish_frame_def stream_packet_def log_def Let_def)

lemma encode_frame_log:
  "\<exists>new. calls (fst (encode_frame lib r msec (w, fw))) = calls w @ new
     \<and> submit_calls (stream fw) msec new
     \<and> settings (snd (encode_frame lib r msec (w, fw))) = settings fw
     \<and> dev (fst (encode_frame lib r msec (w, fw))) = dev w"
  by (cases "avcodec_encode_video2 lib (enc w) (Some ((case r of Encoder_frame \<Rightarrow> encoder_frame fw | Hw_frame \<Rightarrow> hw_frame fw)\<lparr>fr_pts := msec\<rparr>))")
     (auto simp: encode_frame_def Let_def log_def finish_frame_eq submit_calls_def settings_def
        call_defs log_defs split: frame_ref.splits option.splits)

lemma submit_calls_Cons_other:
  "\<not> is_container_write c \<Longrightarrow> packet_produced c = [] \<Longrightarrow> frame_encoded c = [] \<Longrightarrow>
   acquired c = [] \<Longrightarrow> released c = [] \<Longrightarrow>
   submit_calls st msec (c # new) = submit_calls st msec new"
  by (simp add: submit_calls_def log_defs)

lemma add_frame_log:
  "\<exists>new. calls (fst (add_frame lib px msec flip (w, fw))) = calls w @ new
     \<and> submit_calls (stream fw) msec new
     \<and> settings (snd (add_frame lib px msec flip (w, fw))) = settings fw"
proof -
  obtain fp st where yi: "y_inversion fw px flip = (fp, st)" by (cases "y_inversion fw px flip")
  let ?fw1 = "fw\<lparr>encoder_frame := (encoder_frame fw)\<lparr>fr_data0 := fp, fr_linesize0 := st\<rparr>\<rparr>"
  have set1: "settings ?fw1 = settings fw" "stream ?fw1 = stream fw"
    by (simp_all add: settings_def)
  show ?thesis
  proof (cases "hw_device_context fw \<noteq> None")
    case True
    obtain ret d where tr: "av_hwframe_transfer_data lib (dev w) (encoder_frame ?fw1) = (ret, d)"
      by (cases "av_hwframe_transfer_data lib (dev w) (encoder_frame ?fw1)")
    let ?w1 = "log (Av_hwframe_transfer_data (encoder_frame ?fw1)) (w\<lparr>dev := d\<rparr>)"
    show ?thesis
    proof (cases "ret = 0")
      case False
      with True yi tr show ?thesis
        by (simp add: add_frame_def Let_def log_def submit_calls_def settings_def call_defs log_defs)
    next
      case ok: True
      from encode_frame_log[of lib Hw_frame msec ?w1 ?fw1]
      obtain new where n: "calls (fst (encode_frame lib Hw_frame msec (?w1, ?fw1))) = calls ?w1 @ new"
        "submit_calls (stream ?fw1) msec new"
        "settings (snd (encode_frame lib Hw_frame msec (?w1, ?fw1))) = settings ?fw1"
        by blast
      have "submit_calls (stream fw) msec (Av_hwframe_transfer_data (encoder_frame ?fw1) # new)"
        using n(2) by (simp add: submit_calls_Cons_other call_defs)
      with True yi tr ok n show ?thesis
        by (simp add: add_frame_def Let_def log_def set1)
    qed
  next
    case sw: False
    show ?thesis
    proof (cases "get_input_format fw = cc_pix_fmt (codecCtx fw)")
      case True
      from encode_frame_log[of lib Encoder_frame msec w ?fw1]
      show ?thesis using sw True yi by (simp add: add_frame_def set1) blast
    next
      case False
      let ?c = "Sws_scale (swsCtx fw) fp st 0 (height (params fw))"
      from encode_frame_log[of lib Encoder_frame msec "log ?c w" fw]
      obtain new where n: "calls (fst (encode_frame lib Encoder_frame msec (log ?c w, fw))) = calls (log ?c w) @ new"
        "submit_calls (stream fw) msec new"
        "settings (snd (encode_frame lib Encoder_frame msec (log ?c w, fw))) = settings fw"
        by blast
      have "submit_calls (stream fw) msec (?c # new)"
        using n(2) by (simp add: submit_calls_Cons_other call_defs)
      with sw False yi n show ?thesis
        by (simp add: add_frame_def log_def)
    qed
  qed
qed

lemma add_frames_snoc:
  "add_frames lib (frames @ [fr]) s = add_frame lib (fst fr) (fst (snd fr)) (snd (snd fr)) (add_frames lib frames s)"
  by (simp add: add_frames_def)

lemma add_frames_log:
  "\<exists>new. calls (fst (add_frames lib frames s)) = calls (fst s) @ new
     \<and> container_writes new = map (\<lambda>p. Av_interleaved_write_frame (stream_packet (stream (snd s)) p)) (packets_produced new)
     \<and> list_all (\<lambda>f. fr_pts f \<in> set (map (\<lambda>fr. fst (snd fr)) frames)) (frames_encoded new)
     \<and> acquisitions new = [] \<and> releases new = []
     \<and> settings (snd (add_frames lib frames s)) = settings (snd s)"
proof (induction frames rule: rev_induct)
  case Nil
  show ?case by (simp add: add_frames_def log_defs)
next
  case (snoc fr frames)
  let ?s1 = "add_frames lib frames s"
  from snoc obtain new where n: "calls (fst ?s1) = calls (fst s) @ new"
     "container_writes new = map (\<lambda>p. Av_interleaved_write_frame (stream_packet (stream (snd s)) p)) (packets_produced new)"
     "list_all (\<lambda>f. fr_pts f \<in> set (map (\<lambda>fr. fst (snd fr)) frames)) (frames_encoded new)"
     "acquisitions new = []" "releases new = []"
     "settings (snd ?s1) = settings (snd s)" by blast
  from add_frame_log[of lib "fst fr" "fst (snd fr)" "snd (snd fr)" "fst ?s1" "snd ?s1"]
  obtain new2 where m: "calls (fst (add_frames lib (frames @ [fr]) s)) = calls (fst ?s1) @ new2"
     "submit_calls (stream (snd ?s1)) (fst (snd fr)) new2"
     "settings (snd (add_frames lib (frames @ [fr]) s)) = settings (snd ?s1)"
    by (auto simp: add_frames_snoc)
  have st: "stream (snd ?s1) = stream (snd s)" using n(6) by (simp add: settings_def)
  have "list_all (\<lambda>f. fr_pts f \<in> set (map (\<lambda>fr. fst (snd fr)) (frames @ [fr]))) (frames_encoded (new @ new2))"
    using n(3) m(2) by (auto simp: submit_calls_def log_defs list_all_iff)
  moreover have "container_writes (new @ new2) = map (\<lambda>p. Av_interleaved_write_frame (stream_packet (stream (snd s)) p)) (packets_produced (new @ new2))"
    using n(2) m(2) by (simp add: submit_calls_def log_defs st)
  moreover have "acquisitions (new @ new2) = []" "releases (new @ new2) = []"
    using n(4,5) m(2) by (simp_all add: submit_calls_def log_defs)
  ultimately show ?case using n(1,6) m(1,3) by (intro exI[of _ "new @ new2"]) simp
qed

lemma write_delayed_ends:
  "flush_ends_within lib n (enc (fst s)) \<Longrightarrow>
   \<exists>ps e. write_delayed lib s =
      Some ((fst s)\<lparr>enc := e, calls := calls (fst s) @ concat (map (flush_round (stream (snd s))) ps) @ [Avcodec_encode_video2 None None]\<rparr>,
            (snd s)\<lparr>pkt := (if ps = [] then pkt (snd s) else av_init_packet)\<rparr>)
      \<and> length ps \<le> n"
proof (induction n arbitrary: s)
  case 0
  then show ?case
    apply (subst write_delayed.simps)
    apply (cases "avcodec_encode_video2 lib (enc (fst s)) None")
    apply (auto simp: log_def intro!: exI[of _ "[]"])
    done
next
  case (Suc n)
  obtain e got where eg: "avcodec_encode_video2 lib (enc (fst s)) None = (e, got)"
    by (cases "avcodec_encode_video2 lib (enc (fst s)) None")
  show ?case
  proof (cases got)
    case None
    with eg show ?thesis
      apply (subst write_delayed.simps)
      apply (auto simp: log_def intro!: exI[of _ "[]"])
      done
  next
    case (Some p)
    let ?s1 = "finish_frame (log (Avcodec_encode_video2 None (Some p)) ((fst s)\<lparr>enc := e\<rparr>), (snd s)\<lparr>pkt := p\<rparr>)"
    have s1: "?s1 = ((fst s)\<lparr>enc := e, calls := calls (fst s) @ flush_round (stream (snd s)) p\<rparr>, (snd s)\<lparr>pkt := av_init_packet\<rparr>)"
      by (simp add: finish_frame_eq log_def flush_round_def)
    have "flush_ends_within lib n (enc (fst ?s1))"
      using Suc.prems eg Some by (simp add: s1)
    from Suc.IH[OF this] obtain ps e' where
      r: "write_delayed lib ?s1 = Some ((fst ?s1)\<lparr>enc := e', calls := calls (fst ?s1) @ concat (map (flush_round (stream (snd ?s1))) ps) @ [Avcodec_encode_video2 None None]\<rparr>,
            (snd ?s1)\<lparr>pkt := (if ps = [] then pkt (snd ?s1) else av_init_packet)\<rparr>)" and len: "length ps \<le> n"
      by blast
    have "write_delayed lib s = write_delayed lib ?s1"
      using eg Some by (subst write_delayed.simps) simp
    with r len show ?thesis
      unfolding s1 by (intro exI[of _ "p # ps"] exI[of _ e']) simp
  qed
qed

lemma init_hw_accel_Inr:
  assumes "init_hw_accel lib (w, fw) = Inr (w', fw')"
  shows "\<exists>fmt0 rest.
           av_hwdevice_get_hwframe_constraints lib (hw_device (params fw)) = Some (fmt0 # rest)
         \<and> fw' = fw\<lparr>hw_device_context := Some (hw_device (params fw)),
                     hw_frame_context := Some \<lparr>hwf_width = width (params fw),
                        hwf_height = height (params fw), hwf_format = fmt0,
                        hwf_sw_format = AV_PIX_FMT_NV12\<rparr>\<rparr>
         \<and> w' = w\<lparr>calls := calls w @ [Av_hwdevice_ctx_create ''vaapi'' (hw_device (params fw)),
                     Av_hwframe_ctx_alloc, Av_hwdevice_get_hwframe_constraints,
                     Av_hwframe_ctx_init]\<rparr>"
  using assms
  by (auto simp: init_hw_accel_def Let_def log_def split: if_splits option.splits list.splits)

lemma init_sws_Inr:
  assumes "init_sws lib (w, fw) = Inr (w', fw')"
  shows "fw' = fw\<lparr>swsCtx := Some \<lparr>sws_src_format = get_input_format fw,
                                    sws_dst_format = cc_pix_fmt (codecCtx fw)\<rparr>\<rparr>
       \<and> w' = w\<lparr>calls := calls w @ [Sws_getContext (get_input_format fw) (cc_pix_fmt (codecCtx fw))]\<rparr>"
  using assms
  by (auto simp: init_sws_def Let_def log_def split: if_splits)

lemma get_input_format_cong [simp]:
  "get_input_format (fw\<lparr>codecCtx := c\<rparr>) = get_input_format fw"
  "get_input_format (fw\<lparr>stream := st\<rparr>) = get_input_format fw"
  "get_input_format (fw\<lparr>encoder_frame := f\<rparr>) = get_input_format fw"
  by (simp_all add: get_input_format_def)

lemma init_codec_path_Inr:
  assumes "init_codec_path lib cdc (w, fw) = Inr (w', fw')"
  shows "if str_find (codec (params fw)) ''vaapi'' \<noteq> None
         then (\<exists>fmt0 rest.
                 av_hwdevice_get_hwframe_constraints lib (hw_device (params fw)) = Some (fmt0 # rest)
               \<and> fw' = fw\<lparr>codecCtx := (codecCtx fw)\<lparr>cc_pix_fmt := AV_PIX_FMT_VAAPI, cc_hw_frames_ctx := True\<rparr>,
                        hw_device_context := Some (hw_device (params fw)),
                        hw_frame_context := Some \<lparr>hwf_width = width (params fw),
                        hwf_height = height (params fw), hwf_format = fmt0,
                        hwf_sw_format = AV_PIX_FMT_NV12\<rparr>\<rparr>
               \<and> w' = w\<lparr>calls := calls w @ [Av_hwdevice_ctx_create ''vaapi'' (hw_device (params fw)),
                     Av_hwframe_ctx_alloc, Av_hwdevice_get_hwframe_constraints,
                     Av_hwframe_ctx_init, Av_buffer_ref ''hw_frame_context'']\<rparr>)
         else (\<exists>fmt. choose_sw_format fw cdc = Some fmt
               \<and> fw' = fw\<lparr>codecCtx := (codecCtx fw)\<lparr>cc_pix_fmt := fmt\<rparr>,
                          swsCtx := Some \<lparr>sws_src_format = get_input_format fw, sws_dst_format = fmt\<rparr>\<rparr>
               \<and> w' = w\<lparr>calls := calls w @ [Sws_getContext (get_input_format fw) fmt]\<rparr>)"
proof (cases "str_find (codec (params fw)) ''vaapi'' \<noteq> None")
  case True
  let ?fw0 = "fw\<lparr>codecCtx := (codecCtx fw)\<lparr>cc_pix_fmt := AV_PIX_FMT_VAAPI\<rparr>\<rparr>"
  from assms True obtain w1 fw1 where
    h: "init_hw_accel lib (w, ?fw0) = Inr (w1, fw1)"
    and r: "w' = log (Av_buffer_ref ''hw_frame_context'') w1"
           "fw' = fw1\<lparr>codecCtx := (codecCtx fw1)\<lparr>cc_hw_frames_ctx := True\<rparr>\<rparr>"
    by (auto simp: init_codec_path_def split: sum.splits)
  from init_hw_accel_Inr[OF h] r True show ?thesis
    by (auto simp: log_def)
next
  case False
  from assms False obtain fmt where
    c: "choose_sw_format fw cdc = Some fmt"
    and h: "init_sws lib (w, fw\<lparr>codecCtx := (codecCtx fw)\<lparr>cc_pix_fmt := fmt\<rparr>\<rparr>) = Inr (w', fw')"
    by (auto simp: init_codec_path_def split: option.splits)
  from init_sws_Inr[OF h] c False show ?thesis
    by simp
qed

lemma init_codec_open_Inr:
  assumes "init_codec_open lib cdc options (w, fw) = Inr (w', fw')"
  shows "fw' = fw\<lparr>codecCtx := (codecCtx fw)\<lparr>cc_global_header :=
                       (AVFMT_GLOBALHEADER (fmtCtx_oformat fw) \<or> cc_global_header (codecCtx fw))\<rparr>,
                   stream := (stream fw)\<lparr>st_time_base :=
                       snd (avformat_write_header lib
                              ((stream fw)\<lparr>st_time_base := (1, FPS)\<rparr>))\<rparr>\<rparr>
       \<and> w' = w\<lparr>calls := calls w @ [Avcodec_open2, Av_dict_free, Av_dump_format,
                    Avio_open (file_path (params fw)), Avformat_write_header, Av_dict_free]\<rparr>"
  using assms
  by (auto simp: init_codec_open_def Let_def log_def split: if_splits prod.splits)

lemma init_codec_Inr:
  assumes "init_codec lib (w, fw) = Inr (w', fw')"
  shows "\<exists>cdc st cctx w3 fw3.
           avcodec_find_encoder_by_name lib (codec (params fw)) = Some cdc
         \<and> avformat_new_stream lib cdc = Some (st, cctx)
         \<and> init_codec_path lib cdc
              (w\<lparr>calls := calls w
                   @ map (\<lambda>(k, v). Av_dict_set k v) (dict_entries (merged_codec_options (params fw)))
                   @ [Avcodec_find_encoder_by_name (codec (params fw)), Avformat_new_stream]\<rparr>,
               fw\<lparr>params := (params fw)\<lparr>codec_options := merged_codec_options (params fw)\<rparr>,
                  stream := st,
                  codecCtx := cctx\<lparr>cc_width := width (params fw), cc_height := height (params fw),
                                   cc_time_base := (1, FPS)\<rparr>\<rparr>) = Inr (w3, fw3)
         \<and> init_codec_open lib cdc (dict_entries (merged_codec_options (params fw))) (w3, fw3)
              = Inr (w', fw')"
  using assms
  by (auto simp: init_codec_def load_codec_options_def Let_def log_def
           split: option.splits sum.splits prod.splits)

lemma alloc_frames_Inr:
  assumes "alloc_frames lib (w, fw) = Inr (w', fw')"
  shows "\<exists>data linesize.
          (let fr = av_frame_alloc\<lparr>fr_format := (if hw_device_context fw \<noteq> None
                                   then get_input_format fw else cc_pix_fmt (codecCtx fw)),
                    fr_width := width (params fw), fr_height := height (params fw),
                    fr_data0 := data, fr_linesize0 := linesize\<rparr>
           in if hw_device_context fw \<noteq> None
              then \<exists>frctx. hw_frame_context fw = Some frctx
                   \<and> fw' = fw\<lparr>encoder_frame := fr,
                              hw_frame := av_frame_alloc\<lparr>fr_format := hwf_format frctx,
                                     fr_width := width (params fw),
                                     fr_height := height (params fw),
                                     fr_hw_frames_ctx := True\<rparr>\<rparr>
                   \<and> w' = w\<lparr>calls := calls w @ [Av_frame_alloc ''encoder_frame'', Av_frame_get_buffer,
                          Av_frame_alloc ''hw_frame'', Av_buffer_ref ''hw_frame_context'',
                          Av_hwframe_get_buffer]\<rparr>
              else fw' = fw\<lparr>encoder_frame := fr\<rparr>
                   \<and> w' = w\<lparr>calls := calls w @ [Av_frame_alloc ''encoder_frame'', Av_frame_get_buffer]\<rparr>)"
  using assms
  by (auto simp: alloc_frames_def Let_def log_def split: option.splits prod.splits if_splits)

lemma dict_set_projections:
  "packets_produced (map (\<lambda>(k, v). Av_dict_set k v) opts) = []"
  "packets_written (map (\<lambda>(k, v). Av_dict_set k v) opts) = []"
  "frames_encoded (map (\<lambda>(k, v). Av_dict_set k v) opts) = []"
  "acquisitions (map (\<lambda>(k, v). Av_dict_set k v) opts) = []"
  "releases (map (\<lambda>(k, v). Av_dict_set k v) opts) = []"
  "container_writes (map (\<lambda>(k, v). Av_dict_set k v) opts) = []"
  by (induction opts; simp add: log_simps call_defs split: prod.splits)+

lemma new_object_sel [simp]:
  "params (new_object prm) = prm"
  "hw_device_context (new_object prm) = None"
  "hw_frame_context (new_object prm) = None"
  "swsCtx (new_object prm) = None"
  by (simp_all add: new_object_def)

lemma get_input_format_params:
  "format (params fw) = format prm \<Longrightarrow> get_input_format fw = get_input_format (new_object prm)"
  by (simp add: get_input_format_def)

lemma choose_sw_format_params:
  "format (params fw) = format prm \<Longrightarrow> choose_sw_format fw cdc = choose_sw_format (new_object prm) cdc"
  by (simp add: choose_sw_format_def get_input_format_params[of fw prm])

lemma ctor_Inr:
  assumes "FrameWriter_ctor lib prm w0 = Inr (w, fw)"
  shows "\<exists>new. calls w = calls w0 @ new \<and> enc w = enc w0 \<and> dev w = dev w0
     \<and> container_writes new = [Avformat_write_header]
     \<and> packets_produced new = [] \<and> frames_encoded new = [] \<and> releases new = []
     \<and> acquisitions new = (if str_find (codec prm) ''vaapi'' \<noteq> None
                            then hardware_acquisitions else software_acquisitions)"
    and "\<exists>requested. st_time_base requested = (1, FPS)
           \<and> stream fw =
               requested\<lparr>st_time_base := snd (avformat_write_header lib requested)\<rparr>"
    and "params fw = prm\<lparr>codec_options := merged_codec_options prm\<rparr>"
    and "str_find (codec prm) ''vaapi'' \<noteq> None \<Longrightarrow>
           hw_device_context fw = Some (hw_device prm) \<and> swsCtx fw = None
         \<and> cc_pix_fmt (codecCtx fw) = AV_PIX_FMT_VAAPI
         \<and> (\<exists>fmt0 rest. av_hwdevice_get_hwframe_constraints lib (hw_device prm) = Some (fmt0 # rest)
              \<and> hw_frame_context fw = Some \<lparr>hwf_width = width prm, hwf_height = height prm,
                    hwf_format = fmt0, hwf_sw_format = AV_PIX_FMT_NV12\<rparr>
              \<and> fr_format (hw_frame fw) = fmt0)"
    and "str_find (codec prm) ''vaapi'' = None \<Longrightarrow>
           hw_device_context fw = None \<and> hw_frame_context fw = None
         \<and> (\<exists>cdc fmt. avcodec_find_encoder_by_name lib (codec prm) = Some cdc
              \<and> choose_sw_format (new_object prm) cdc = Some fmt
              \<and> cc_pix_fmt (codecCtx fw) = fmt
              \<and> swsCtx fw = Some \<lparr>sws_src_format = get_input_format (new_object prm), sws_dst_format = fmt\<rparr>)"
proof -
  let ?w1 = "if enable_ffmpeg_debug_output prm then log Av_log_set_level w0 else w0"
  let ?w2 = "log (Avformat_alloc_output_context2 (file_path prm))
                (log (Av_guess_format (file_path prm)) ?w1)"
  from assms obtain ofmt ret oformat s1 where
    g: "av_guess_format lib (file_path prm) = Some ofmt"
    and a: "avformat_alloc_output_context2 lib (file_path prm) = (ret, oformat)" "\<not> ret < 0"
    and ic: "init_codec lib (?w2, (new_object prm)\<lparr>outputFmt := ofmt, fmtCtx_oformat := oformat\<rparr>) = Inr s1"
    and af: "alloc_frames lib s1 = Inr (w, fw)"
    by (auto simp: FrameWriter_ctor_def Let_def split: option.splits prod.splits if_splits sum.splits)
  obtain w4 fw4 where s1: "s1 = (w4, fw4)" by (cases s1)
  let ?fw0 = "(new_object prm)\<lparr>outputFmt := ofmt, fmtCtx_oformat := oformat\<rparr>"
  have p0: "params ?fw0 = prm" by simp
  from init_codec_Inr[OF ic[unfolded s1]] obtain cdc st cctx w3 fw3 fw2 where
    fe: "avcodec_find_encoder_by_name lib (codec prm) = Some cdc"
    and ns: "avformat_new_stream lib cdc = Some (st, cctx)"
    and fw2: "fw2 = ?fw0\<lparr>params := prm\<lparr>codec_options := merged_codec_options prm\<rparr>,
                  stream := st,
                  codecCtx := cctx\<lparr>cc_width := width prm, cc_height := height prm,
                                   cc_time_base := (1, FPS)\<rparr>\<rparr>"
    and pa: "init_codec_path lib cdc
              (?w2\<lparr>calls := calls ?w2
                   @ map (\<lambda>(k, v). Av_dict_set k v) (dict_entries (merged_codec_options prm))
                   @ [Avcodec_find_encoder_by_name (codec prm), Avformat_new_stream]\<rparr>, fw2) = Inr (w3, fw3)"
    and op: "init_codec_open lib cdc (dict_entries (merged_codec_options prm)) (w3, fw3) = Inr (w4, fw4)"
    unfolding p0 by blast
  have f2: "params fw2 = prm\<lparr>codec_options := merged_codec_options prm\<rparr>"
    "hw_device_context fw2 = None" "hw_frame_context fw2 = None" "swsCtx fw2 = None"
    by (simp_all add: fw2)
  have c2: "choose_sw_format fw2 cdc = choose_sw_format (new_object prm) cdc"
    "get_input_format fw2 = get_input_format (new_object prm)"
    by (simp_all add: choose_sw_format_params[of fw2 prm] get_input_format_params[of fw2 prm] f2)
  have w2: "calls ?w2 = calls w0 @ (if enable_ffmpeg_debug_output prm then [Av_log_set_level] else [])
               @ [Av_guess_format (file_path prm), Avformat_alloc_output_context2 (file_path prm)]"
    "enc ?w2 = enc w0" "dev ?w2 = dev w0"
    by (simp_all add: log_def)
  note O = init_codec_open_Inr[OF op]
  have f4: "params fw4 = params fw3" "hw_device_context fw4 = hw_device_context fw3"
    "hw_frame_context fw4 = hw_frame_context fw3" "swsCtx fw4 = swsCtx fw3"
    "cc_pix_fmt (codecCtx fw4) = cc_pix_fmt (codecCtx fw3)"
    "stream fw4 = ((stream fw3)\<lparr>st_time_base := (1, FPS)\<rparr>)
       \<lparr>st_time_base := snd (avformat_write_header lib
                                 ((stream fw3)\<lparr>st_time_base := (1, FPS)\<rparr>))\<rparr>"
    by (simp_all add: O)
  have w4: "calls w4 = calls w3 @ [Avcodec_open2, Av_dict_free, Av_dump_format,
                    Avio_open (file_path (params fw3)), Avformat_write_header, Av_dict_free]"
     "enc w4 = enc w3" "dev w4 = dev w3"
    by (simp_all add: O)
  note A = alloc_frames_Inr[OF af[unfolded s1]]
  have f5: "params fw = params fw4" "hw_device_context fw = hw_device_context fw4"
    "hw_frame_context fw = hw_frame_context fw4" "swsCtx fw = swsCtx fw4"
    "codecCtx fw = codecCtx fw4" "stream fw = stream fw4"
    using A by (auto simp: Let_def split: if_splits)
  have w5: "enc w = enc w4" "dev w = dev w4"
    using A by (auto simp: Let_def split: if_splits)
  note P = init_codec_path_Inr[OF pa, unfolded f2 c2]
  show "\<exists>requested. st_time_base requested = (1, FPS)
           \<and> stream fw =
               requested\<lparr>st_time_base := snd (avformat_write_header lib requested)\<rparr>"
    by (rule exI[of _ "(stream fw3)\<lparr>st_time_base := (1, FPS)\<rparr>"]) (simp add: f5 f4(6))
  have f3: "params fw3 = params fw2"
    using P by (auto split: if_splits)
  show "params fw = prm\<lparr>codec_options := merged_codec_options prm\<rparr>"
    by (simp add: f5 f4 f3 f2)
  have hw: "hw_device_context fw = Some (hw_device prm) \<and> swsCtx fw = None
         \<and> cc_pix_fmt (codecCtx fw) = AV_PIX_FMT_VAAPI
         \<and> (\<exists>fmt0 rest. av_hwdevice_get_hwframe_constraints lib (hw_device prm) = Some (fmt0 # rest)
              \<and> hw_frame_context fw = Some \<lparr>hwf_width = width prm, hwf_height = height prm,
                    hwf_format = fmt0, hwf_sw_format = AV_PIX_FMT_NV12\<rparr>
              \<and> fr_format (hw_frame fw) = fmt0)
         \<and> w = w4\<lparr>calls := calls w4 @ [Av_frame_alloc ''encoder_frame'', Av_frame_get_buffer,
                          Av_frame_alloc ''hw_frame'', Av_buffer_ref ''hw_frame_context'',
                          Av_hwframe_get_buffer]\<rparr>
         \<and> calls w3 = calls ?w2
                   @ map (\<lambda>(k, v). Av_dict_set k v) (dict_entries (merged_codec_options prm))
                   @ [Avcodec_find_encoder_by_name (codec prm), Avformat_new_stream]
                   @ [Av_hwdevice_ctx_create ''vaapi'' (hw_device prm),
                     Av_hwframe_ctx_alloc, Av_hwdevice_get_hwframe_constraints,
                     Av_hwframe_ctx_init, Av_buffer_ref ''hw_frame_context'']
         \<and> enc w3 = enc w0 \<and> dev w3 = dev w0"
    if v: "str_find (codec prm) ''vaapi'' \<noteq> None"
  proof -
    from P v obtain fmt0 rest where
      c: "av_hwdevice_get_hwframe_constraints lib (hw_device prm) = Some (fmt0 # rest)"
      and f: "fw3 = fw2\<lparr>codecCtx := (codecCtx fw2)\<lparr>cc_pix_fmt := AV_PIX_FMT_VAAPI, cc_hw_frames_ctx := True\<rparr>,
                        hw_device_context := Some (hw_device prm),
                        hw_frame_context := Some \<lparr>hwf_width = width prm,
                        hwf_height = height prm, hwf_format = fmt0,
                        hwf_sw_format = AV_PIX_FMT_NV12\<rparr>\<rparr>"
      and l: "w3 = (?w2\<lparr>calls := calls ?w2
                   @ map (\<lambda>(k, v). Av_dict_set k v) (dict_entries (merged_codec_options prm))
                   @ [Avcodec_find_encoder_by_name (codec prm), Avformat_new_stream]\<rparr>)\<lparr>calls := calls (?w2\<lparr>calls := calls ?w2
                   @ map (\<lambda>(k, v). Av_dict_set k v) (dict_entries (merged_codec_options prm))
                   @ [Avcodec_find_encoder_by_name (codec prm), Avformat_new_stream]\<rparr>) @ [Av_hwdevice_ctx_create ''vaapi'' (hw_device prm),
                     Av_hwframe_ctx_alloc, Av_hwdevice_get_hwframe_constraints,
                     Av_hwframe_ctx_init, Av_buffer_ref ''hw_frame_context'']\<rparr>"
      by auto
    have h4: "hw_device_context fw4 = Some (hw_device prm)"
      "hw_frame_context fw4 = Some \<lparr>hwf_width = width prm,
                        hwf_height = height prm, hwf_format = fmt0,
                        hwf_sw_format = AV_PIX_FMT_NV12\<rparr>"
      "swsCtx fw4 = None" "cc_pix_fmt (codecCtx fw4) = AV_PIX_FMT_VAAPI"
      by (simp_all add: f4 f f2)
    from A h4 have "fr_format (hw_frame fw) = fmt0"
      "w = w4\<lparr>calls := calls w4 @ [Av_frame_alloc ''encoder_frame'', Av_frame_get_buffer,
                          Av_frame_alloc ''hw_frame'', Av_buffer_ref ''hw_frame_context'',
                          Av_hwframe_get_buffer]\<rparr>"
      by (auto simp: Let_def)
    moreover have "enc w3 = enc w0" "dev w3 = dev w0"
      by (simp_all add: l log_def)
    moreover have "calls w3 = calls ?w2
                   @ map (\<lambda>(k, v). Av_dict_set k v) (dict_entries (merged_codec_options prm))
                   @ [Avcodec_find_encoder_by_name (codec prm), Avformat_new_stream]
                   @ [Av_hwdevice_ctx_create ''vaapi'' (hw_device prm),
                     Av_hwframe_ctx_alloc, Av_hwdevice_get_hwframe_constraints,
                     Av_hwframe_ctx_init, Av_buffer_ref ''hw_frame_context'']"
      by (subst l) simp
    ultimately show ?thesis using c h4 by (simp add: f5)
  qed
  have sw: "hw_device_context fw = None \<and> hw_frame_context fw = None
         \<and> (\<exists>cdc fmt. avcodec_find_encoder_by_name lib (codec prm) = Some cdc
              \<and> choose_sw_format (new_object prm) cdc = Some fmt
              \<and> cc_pix_fmt (codecCtx fw) = fmt
              \<and> swsCtx fw = Some \<lparr>sws_src_format = get_input_format (new_object prm), sws_dst_format = fmt\<rparr>
              \<and> calls w3 = calls ?w2
                   @ map (\<lambda>(k, v). Av_dict_set k v) (dict_entries (merged_codec_options prm))
                   @ [Avcodec_find_encoder_by_name (codec prm), Avformat_new_stream]
                   @ [Sws_getContext (get_input_format (new_object prm)) fmt])
         \<and> w = w4\<lparr>calls := calls w4 @ [Av_frame_alloc ''encoder_frame'', Av_frame_get_buffer]\<rparr>
         \<and> enc w3 = enc w0 \<and> dev w3 = dev w0"
    if v: "str_find (codec prm) ''vaapi'' = None"
  proof -
    from P v obtain fmt where
      c: "choose_sw_format (new_object prm) cdc = Some fmt"
      and f: "fw3 = fw2\<lparr>codecCtx := (codecCtx fw2)\<lparr>cc_pix_fmt := fmt\<rparr>,
                          swsCtx := Some \<lparr>sws_src_format = get_input_format (new_object prm), sws_dst_format = fmt\<rparr>\<rparr>"
      and l: "w3 = (?w2\<lparr>calls := calls ?w2
                   @ map (\<lambda>(k, v). Av_dict_set k v) (dict_entries (merged_codec_options prm))
                   @ [Avcodec_find_encoder_by_name (codec prm), Avformat_new_stream]\<rparr>)\<lparr>calls := calls (?w2\<lparr>calls := calls ?w2
                   @ map (\<lambda>(k, v). Av_dict_set k v) (dict_entries (merged_codec_options prm))
                   @ [Avcodec_find_encoder_by_name (codec prm), Avformat_new_stream]\<rparr>) @ [Sws_getContext (get_input_format (new_object prm)) fmt]\<rparr>"
      by auto
    have h4: "hw_device_context fw4 = None" "hw_frame_context fw4 = None"
      "swsCtx fw4 = Some \<lparr>sws_src_format = get_input_format (new_object prm), sws_dst_format = fmt\<rparr>"
      "cc_pix_fmt (codecCtx fw4) = fmt"
      by (simp_all add: f4 f f2)
    from A h4 have "w = w4\<lparr>calls := calls w4 @ [Av_frame_alloc ''encoder_frame'', Av_frame_get_buffer]\<rparr>"
      by (auto simp: Let_def)
    moreover have "enc w3 = enc w0" "dev w3 = dev w0"
      by (simp_all add: l log_def)
    moreover have "calls w3 = calls ?w2
                   @ map (\<lambda>(k, v). Av_dict_set k v) (dict_entries (merged_codec_options prm))
                   @ [Avcodec_find_encoder_by_name (codec prm), Avformat_new_stream]
                   @ [Sws_getContext (get_input_format (new_object prm)) fmt]"
      by (subst l) simp
    ultimately show ?thesis using c h4 fe by (simp add: f5 f4)
  qed
  from hw show "hw_device_context fw = Some (hw_device prm) \<and> swsCtx fw = None
         \<and> cc_pix_fmt (codecCtx fw) = AV_PIX_FMT_VAAPI
         \<and> (\<exists>fmt0 rest. av_hwdevice_get_hwframe_constraints lib (hw_device prm) = Some (fmt0 # rest)
              \<and> hw_frame_context fw = Some \<lparr>hwf_width = width prm, hwf_height = height prm,
                    hwf_format = fmt0, hwf_sw_format = AV_PIX_FMT_NV12\<rparr>
              \<and> fr_format (hw_frame fw) = fmt0)"
    if "str_find (codec prm) ''vaapi'' \<noteq> None" using that by blast
  from sw show "hw_device_context fw = None \<and> hw_frame_context fw = None
         \<and> (\<exists>cdc fmt. avcodec_find_encoder_by_name lib (codec prm) = Some cdc
              \<and> choose_sw_format (new_object prm) cdc = Some fmt
              \<and> cc_pix_fmt (codecCtx fw) = fmt
              \<and> swsCtx fw = Some \<lparr>sws_src_format = get_input_format (new_object prm), sws_dst_format = fmt\<rparr>)"
    if "str_find (codec prm) ''vaapi'' = None" using that by blast
  show "\<exists>new. calls w = calls w0 @ new \<and> enc w = enc w0 \<and> dev w = dev w0
     \<and> container_writes new = [Avformat_write_header]
     \<and> packets_produced new = [] \<and> frames_encoded new = [] \<and> releases new = []
     \<and> acquisitions new = (if str_find (codec prm) ''vaapi'' \<noteq> None
                            then hardware_acquisitions else software_acquisitions)"
  proof (cases "str_find (codec prm) ''vaapi'' \<noteq> None")
    case True
    from hw[OF True] have "calls w = calls w0 @ ((if enable_ffmpeg_debug_output prm then [Av_log_set_level] else [])
               @ [Av_guess_format (file_path prm), Avformat_alloc_output_context2 (file_path prm)]
                   @ map (\<lambda>(k, v). Av_dict_set k v) (dict_entries (merged_codec_options prm))
                   @ [Avcodec_find_encoder_by_name (codec prm), Avformat_new_stream]
                   @ [Av_hwdevice_ctx_create ''vaapi'' (hw_device prm),
                     Av_hwframe_ctx_alloc, Av_hwdevice_get_hwframe_constraints,
                     Av_hwframe_ctx_init, Av_buffer_ref ''hw_frame_context'']
                   @ [Avcodec_open2, Av_dict_free, Av_dump_format,
                    Avio_open (file_path (params fw3)), Avformat_write_header, Av_dict_free]
                   @ [Av_frame_alloc ''encoder_frame'', Av_frame_get_buffer,
                          Av_frame_alloc ''hw_frame'', Av_buffer_ref ''hw_frame_context'',
                          Av_hwframe_get_buffer])"
       and "enc w = enc w0" "dev w = dev w0"
      using w4 w2 by simp_all
    then show ?thesis using True
      by (simp add: log_simps dict_set_projections call_defs hardware_acquisitions_def)
  next
    case False
    from sw False obtain fmt where "calls w = calls w0 @ ((if enable_ffmpeg_debug_output prm then [Av_log_set_level] else [])
               @ [Av_guess_format (file_path prm), Avformat_alloc_output_context2 (file_path prm)]
                   @ map (\<lambda>(k, v). Av_dict_set k v) (dict_entries (merged_codec_options prm))
                   @ [Avcodec_find_encoder_by_name (codec prm), Avformat_new_stream]
                   @ [Sws_getContext (get_input_format (new_object prm)) fmt]
                   @ [Avcodec_open2, Av_dict_free, Av_dump_format,
                    Avio_open (file_path (params fw3)), Avformat_write_header, Av_dict_free]
                   @ [Av_frame_alloc ''encoder_frame'', Av_frame_get_buffer])"
       and "enc w = enc w0" "dev w = dev w0"
      using w4 w2 by auto
    then show ?thesis using False
      by (simp add: log_simps dict_set_projections call_defs software_acquisitions_def)
  qed
qed

lemma flush_rounds_log:
  "container_writes (concat (map (flush_round st) ps)) = map (\<lambda>p. Av_interleaved_write_frame (stream_packet st p)) ps"
  "packets_produced (concat (map (flush_round st) ps)) = ps"
  "frames_encoded (concat (map (flush_round st) ps)) = []"
  "acquisitions (concat (map (flush_round st) ps)) = []"
  "releases (concat (map (flush_round st) ps)) = []"
  by (induction ps; simp add: log_simps call_defs flush_round_def)+

lemma packets_written_container_writes:
  "packets_written tr = packets_written (container_writes tr)"
  by (induction tr) (auto simp: log_simps call_defs split: call.splits)

lemma packets_written_map [simp]:
  "packets_written (map (\<lambda>p. Av_interleaved_write_frame (f p)) ps) = map f ps"
  by (induction ps) (simp_all add: log_simps call_defs)

lemma release_all_eq:
  "release_all (w, fw) = (w\<lparr>calls := calls w @ Av_write_trailer # release_calls fw\<rparr>, fw)"
  by (simp add: release_all_def release_calls_def Let_def log_def)

lemma release_calls_log:
  "container_writes (release_calls fw) = []"
  "packets_produced (release_calls fw) = []"
  "frames_encoded (release_calls fw) = []"
  "acquisitions (release_calls fw) = []"
  "filter is_encoder_or_muxer_call (release_calls fw) = []"
  "releases (release_calls fw) =
     (if AVFMT_NOFILE (outputFmt fw) then [] else [Output_handle])
     @ [Codec_session] @ (case swsCtx fw of None \<Rightarrow> [] | Some c \<Rightarrow> [Scaler_context])
     @ [Frame_buffer ''encoder_frame'', Container_context]"
  by (simp_all add: release_calls_def log_simps call_defs)

lemma session:
  assumes ctor: "FrameWriter_ctor lib prm w0 = Inr s1"
    and frames: "s2 = add_frames lib frames s1"
    and ends: "flush_ends_within lib n (enc (fst s2))"
  shows "\<exists>s3 new1 new2 ps.
      FrameWriter_dtor lib s2 = Some s3
    \<and> calls (fst s1) = calls w0 @ new1
    \<and> calls (fst s2) = calls (fst s1) @ new2
    \<and> calls (fst s3) = calls (fst s2) @ concat (map (flush_round (stream (snd s2))) ps)
          @ [Avcodec_encode_video2 None None, Av_write_trailer] @ release_calls (snd s2)
    \<and> container_writes new1 = [Avformat_write_header]
    \<and> packets_produced new1 = [] \<and> frames_encoded new1 = [] \<and> releases new1 = []
    \<and> acquisitions new1 = (if str_find (codec prm) ''vaapi'' \<noteq> None
                            then hardware_acquisitions else software_acquisitions)
    \<and> container_writes new2 = map (\<lambda>p. Av_interleaved_write_frame (stream_packet (stream (snd s2)) p)) (packets_produced new2)
    \<and> list_all (\<lambda>f. fr_pts f \<in> set (map (\<lambda>fr. fst (snd fr)) frames)) (frames_encoded new2)
    \<and> acquisitions new2 = [] \<and> releases new2 = []
    \<and> settings (snd s2) = settings (snd s1)"
proof -
  obtain w1 fw1 where s1: "s1 = (w1, fw1)" by (cases s1)
  from ctor_Inr(1)[OF ctor[unfolded s1]] obtain new1 where
    n1: "calls w1 = calls w0 @ new1" "container_writes new1 = [Avformat_write_header]"
     "packets_produced new1 = []" "frames_encoded new1 = []" "releases new1 = []"
     "acquisitions new1 = (if str_find (codec prm) ''vaapi'' \<noteq> None
                            then hardware_acquisitions else software_acquisitions)"
    by blast
  from add_frames_log[of lib frames s1] frames obtain new2 where
    n2: "calls (fst s2) = calls (fst s1) @ new2"
     "container_writes new2 = map (\<lambda>p. Av_interleaved_write_frame (stream_packet (stream (snd s1)) p)) (packets_produced new2)"
     "list_all (\<lambda>f. fr_pts f \<in> set (map (\<lambda>fr. fst (snd fr)) frames)) (frames_encoded new2)"
     "acquisitions new2 = []" "releases new2 = []"
     "settings (snd s2) = settings (snd s1)"
    by blast
  have st: "stream (snd s1) = stream (snd s2)" using n2(6) by (simp add: settings_def)
  from write_delayed_ends[OF ends] obtain ps e where
    wd: "write_delayed lib s2 =
      Some ((fst s2)\<lparr>enc := e, calls := calls (fst s2) @ concat (map (flush_round (stream (snd s2))) ps) @ [Avcodec_encode_video2 None None]\<rparr>,
            (snd s2)\<lparr>pkt := (if ps = [] then pkt (snd s2) else av_init_packet)\<rparr>)"
    by blast
  have rc: "release_calls ((snd s2)\<lparr>pkt := x\<rparr>) = release_calls (snd s2)" for x
    by (simp add: release_calls_def)
  show ?thesis
    apply (rule exI[of _ "the (FrameWriter_dtor lib s2)"])
    apply (rule exI[of _ new1])
    apply (rule exI[of _ new2])
    apply (rule exI[of _ ps])
    using n1 n2 unfolding st
    apply (simp add: FrameWriter_dtor_def wd release_all_eq rc s1)
    done
qed


lemma session_resources:
  assumes ctor: "FrameWriter_ctor lib prm w0 = Inr s1"
    and fresh: "calls w0 = []"
    and frames: "s2 = add_frames lib frames s1"
    and ends: "flush_ends_within lib n (enc (fst s2))"
  shows "\<exists>s3. FrameWriter_dtor lib s2 = Some s3
     \<and> acquisitions (calls (fst s3)) =
         (if str_find (codec prm) ''vaapi'' \<noteq> None
          then hardware_acquisitions else software_acquisitions)
     \<and> releases (calls (fst s3)) =
         (if AVFMT_NOFILE (outputFmt (snd s2)) then [] else [Output_handle])
         @ [Codec_session]
         @ (if str_find (codec prm) ''vaapi'' \<noteq> None then [] else [Scaler_context])
         @ [Frame_buffer ''encoder_frame'', Container_context]"
proof -
  obtain w1 fw1 where s: "s1 = (w1, fw1)" by (cases s1)
  note C = ctor_Inr[OF ctor[unfolded s]]
  from session[OF ctor frames ends] obtain s3 new1 new2 ps where
    d: "FrameWriter_dtor lib s2 = Some s3"
    and c: "calls (fst s1) = calls w0 @ new1" "calls (fst s2) = calls (fst s1) @ new2"
      "calls (fst s3) = calls (fst s2) @ concat (map (flush_round (stream (snd s2))) ps)
          @ [Avcodec_encode_video2 None None, Av_write_trailer] @ release_calls (snd s2)"
    and n: "releases new1 = []" "acquisitions new1 = (if str_find (codec prm) ''vaapi'' \<noteq> None
          then hardware_acquisitions else software_acquisitions)"
      "acquisitions new2 = []" "releases new2 = []"
      "settings (snd s2) = settings (snd s1)"
    by auto
  have sw2: "swsCtx (snd s2) = swsCtx fw1" using n(5) by (simp add: settings_def s)
  have acq: "acquisitions (calls (fst s3)) = (if str_find (codec prm) ''vaapi'' \<noteq> None
          then hardware_acquisitions else software_acquisitions)"
    by (simp add: c fresh n log_simps flush_rounds_log release_calls_log call_defs)
  have rel: "releases (calls (fst s3)) =
         (if AVFMT_NOFILE (outputFmt (snd s2)) then [] else [Output_handle])
         @ [Codec_session]
         @ (if str_find (codec prm) ''vaapi'' \<noteq> None then [] else [Scaler_context])
         @ [Frame_buffer ''encoder_frame'', Container_context]"
  proof (cases "str_find (codec prm) ''vaapi'' \<noteq> None")
    case True
    from C(4)[OF True] have "swsCtx fw1 = None" by simp
    with True show ?thesis
      by (simp add: c fresh n log_simps flush_rounds_log release_calls_log call_defs sw2)
  next
    case False
    then have "str_find (codec prm) ''vaapi'' = None" by simp
    from C(5)[OF this] obtain x where "swsCtx fw1 = Some x" by blast
    with False show ?thesis
      by (simp add: c fresh n log_simps flush_rounds_log release_calls_log call_defs sw2)
  qed
  from d acq rel show ?thesis by blast
qed

lemma example_session_facts:
  "FrameWriter_ctor example_lib example_params example_world = Inr example_constructed"
  "calls example_world = []"
  "str_find (codec example_params) ''vaapi'' = None"
  "flush_ends_within example_lib 1 (enc (fst example_submitted))"
  "\<not> AVFMT_NOFILE (outputFmt (snd example_submitted))"
  by (code_simp, simp add: example_world_def, simp add: example_params_def, code_simp, code_simp)

lemma int32_in_range: "- (2 ^ 31) \<le> x \<Longrightarrow> x < 2 ^ 31 \<Longrightarrow> int32 x = x"
  by (simp add: int32_def)

lemma y_inversion_in_range:
  assumes w: "0 < width (params fw)" and h: "0 < height (params fw)"
    and size: "4 * width (params fw) * height (params fw) < 2 ^ 31"
  shows "y_inversion fw pixels False = (pixels, 4 * width (params fw))"
    and "y_inversion fw pixels True =
           (pixels + 4 * width (params fw) * (height (params fw) - 1), - (4 * width (params fw)))"
proof -
  let ?w = "width (params fw)" and ?h = "height (params fw)"
  have "4 * ?w * 1 \<le> 4 * ?w * ?h"
    using w h by (intro mult_left_mono) auto
  then have "4 * ?w \<le> 4 * ?w * ?h" by (simp only: mult_1_right)
  with size have a: "4 * ?w < 2 ^ 31" by (rule le_less_trans[rotated])
  have "4 * ?w * (?h - 1) \<le> 4 * ?w * ?h"
    using w by (intro mult_left_mono) auto
  with size have b: "4 * ?w * (?h - 1) < 2 ^ 31" by (rule le_less_trans[rotated])
  have c: "0 \<le> 4 * ?w * (?h - 1)" using w h by simp
  have s0: "int32 (4 * ?w) = 4 * ?w"
    using a w by (intro int32_in_range) auto
  have s1: "int32 (4 * ?w * (?h - 1)) = 4 * ?w * (?h - 1)"
    using b c by (intro int32_in_range) auto
  have s2: "int32 (- (4 * ?w)) = - (4 * ?w)"
    using a w by (intro int32_in_range) auto
  show "y_inversion fw pixels False = (pixels, 4 * ?w)"
    by (simp add: y_inversion_def s0)
  show "y_inversion fw pixels True = (pixels + 4 * ?w * (?h - 1), - (4 * ?w))"
    using s1 s2 by (simp add: y_inversion_def s0 Let_def)
qed

lemma rows_reversed:
  "rows_presented (p + s * (h - 1), - s) h = rev (rows_presented (p, s) h)"
proof (rule nth_equalityI)
  show "length (rows_presented (p + s * (h - 1), - s) h) = length (rev (rows_presented (p, s) h))"
    by (simp add: rows_presented_def)
next
  fix i assume "i < length (rows_presented (p + s * (h - 1), - s) h)"
  then have i: "i < nat h" by (simp add: rows_presented_def)
  then have j: "nat h - Suc i < nat h" by simp
  have "int (nat h - Suc i) = h - 1 - int i" using i by simp
  then show "rows_presented (p + s * (h - 1), - s) h ! i = rev (rows_presented (p, s) h) ! i"
    using i j by (simp add: rows_presented_def rev_nth row_start_def algebra_simps)
qed

lemma add_frame_first_call:
  "source_view (calls (fst (add_frame lib pixels msec y_invert (w, fw))) ! length (calls w)) =
     Some (y_inversion fw pixels y_invert)"
proof -
  obtain fp st where yi: "y_inversion fw pixels y_invert = (fp, st)"
    by (cases "y_inversion fw pixels y_invert")
  have e: "\<exists>rest. calls (fst (encode_frame lib r msec (w', fw'))) =
             calls w' @ Avcodec_encode_video2 (Some ((case r of Encoder_frame \<Rightarrow> encoder_frame fw' | Hw_frame \<Rightarrow> hw_frame fw')\<lparr>fr_pts := msec\<rparr>)) (snd (avcodec_encode_video2 lib (enc w') (Some ((case r of Encoder_frame \<Rightarrow> encoder_frame fw' | Hw_frame \<Rightarrow> hw_frame fw')\<lparr>fr_pts := msec\<rparr>)))) # rest"
    for r w' fw'
    by (cases "avcodec_encode_video2 lib (enc w') (Some ((case r of Encoder_frame \<Rightarrow> encoder_frame fw' | Hw_frame \<Rightarrow> hw_frame fw')\<lparr>fr_pts := msec\<rparr>))")
       (auto simp: encode_frame_def Let_def log_def finish_frame_eq split: frame_ref.splits option.splits)
  show ?thesis
  proof (cases "hw_device_context fw \<noteq> None")
    case True
    let ?fw1 = "fw\<lparr>encoder_frame := (encoder_frame fw)\<lparr>fr_data0 := fp, fr_linesize0 := st\<rparr>\<rparr>"
    obtain ret d where tr: "av_hwframe_transfer_data lib (dev w) (encoder_frame ?fw1) = (ret, d)"
      by (cases "av_hwframe_transfer_data lib (dev w) (encoder_frame ?fw1)")
    let ?w1 = "log (Av_hwframe_transfer_data (encoder_frame ?fw1)) (w\<lparr>dev := d\<rparr>)"
    from e[of Hw_frame ?w1 ?fw1] obtain rest where
      "calls (fst (encode_frame lib Hw_frame msec (?w1, ?fw1))) = calls w @ Av_hwframe_transfer_data (encoder_frame ?fw1) # rest"
      by (auto simp: log_def)
    with True yi tr show ?thesis
      by (cases "ret = 0") (simp_all add: add_frame_def Let_def log_def source_view_def nth_append)
  next
    case sw: False
    show ?thesis
    proof (cases "get_input_format fw = cc_pix_fmt (codecCtx fw)")
      case True
      let ?fw1 = "fw\<lparr>encoder_frame := (encoder_frame fw)\<lparr>fr_data0 := fp, fr_linesize0 := st\<rparr>\<rparr>"
      from e[of Encoder_frame w ?fw1] obtain rest got where
        "calls (fst (encode_frame lib Encoder_frame msec (w, ?fw1))) = calls w @ Avcodec_encode_video2 (Some ((encoder_frame ?fw1)\<lparr>fr_pts := msec\<rparr>)) got # rest"
        by auto
      with sw True yi show ?thesis
        by (simp add: add_frame_def source_view_def nth_append)
    next
      case False
      let ?c = "Sws_scale (swsCtx fw) fp st 0 (height (params fw))"
      from e[of Encoder_frame "log ?c w" fw] obtain rest where
        "calls (fst (encode_frame lib Encoder_frame msec (log ?c w, fw))) = calls w @ ?c # rest"
        by (auto simp: log_def)
      with sw False yi show ?thesis
        by (simp add: add_frame_def source_view_def nth_append)
    qed
  qed
qed

lemma y_inversion_params:
  "params fw' = params fw \<Longrightarrow> y_inversion fw' pixels y_invert = y_inversion fw pixels y_invert"
  by (simp add: y_inversion_def Let_def)

lemma add_frame_transfer_failed:
  assumes hw: "hw_device_context fw \<noteq> None"
    and staged: "staged = (encoder_frame fw)
                   \<lparr>fr_data0 := fst (y_inversion fw pixels y_invert),
                    fr_linesize0 := snd (y_inversion fw pixels y_invert)\<rparr>"
    and fail: "av_hwframe_transfer_data lib (dev w) staged = (ret, d)" "ret \<noteq> 0"
  shows "add_frame lib pixels msec y_invert (w, fw) =
           (w\<lparr>dev := d,
              calls := calls w @ [Av_hwframe_transfer_data staged,
                                  Cerr ''Failed to upload data to the gpu!'']\<rparr>,
            fw\<lparr>encoder_frame := staged\<rparr>)"
  using assms
  by (cases "y_inversion fw pixels y_invert") (simp add: add_frame_def Let_def log_def)

lemma add_frame_transfer_ok:
  assumes hw: "hw_device_context fw \<noteq> None"
    and staged: "staged = (encoder_frame fw)
                   \<lparr>fr_data0 := fst (y_inversion fw pixels y_invert),
                    fr_linesize0 := snd (y_inversion fw pixels y_invert)\<rparr>"
    and ok: "fst (av_hwframe_transfer_data lib (dev w) staged) = 0"
  shows "frames_encoded (calls (fst (add_frame lib pixels msec y_invert (w, fw)))) =
           frames_encoded (calls w) @ [(hw_frame fw)\<lparr>fr_pts := msec\<rparr>]"
proof -
  obtain d where tr: "av_hwframe_transfer_data lib (dev w) staged = (0, d)"
    using ok by (cases "av_hwframe_transfer_data lib (dev w) staged") simp
  let ?fw1 = "fw\<lparr>encoder_frame := staged\<rparr>"
  let ?w1 = "log (Av_hwframe_transfer_data staged) (w\<lparr>dev := d\<rparr>)"
  have a: "add_frame lib pixels msec y_invert (w, fw) = encode_frame lib Hw_frame msec (?w1, ?fw1)"
    using hw staged tr
    by (cases "y_inversion fw pixels y_invert") (simp add: add_frame_def Let_def)
  obtain e got where eg: "avcodec_encode_video2 lib (enc ?w1) (Some ((hw_frame ?fw1)\<lparr>fr_pts := msec\<rparr>)) = (e, got)"
    by (cases "avcodec_encode_video2 lib (enc ?w1) (Some ((hw_frame ?fw1)\<lparr>fr_pts := msec\<rparr>))")
  show ?thesis
    unfolding a using eg
    by (cases got)
       (simp_all add: encode_frame_def Let_def log_def finish_frame_eq log_simps call_defs)
qed

lemma stream_packet_pts:
  "pkt_pts (stream_packet st p) =
     (if pkt_pts p = AV_NOPTS_VALUE then AV_NOPTS_VALUE
      else av_rescale_q (pkt_pts p) (1, 1000) (st_time_base st))"
  by (simp add: stream_packet_def av_packet_rescale_ts_def)

lemma rescale_one_second: "av_rescale_q 1000 (1, 1000) (1, 60) = 60"
  by (simp add: av_rescale_q_def)

lemma seed_lookup:
  "Mapping.lookup (fold seed_default ds m) k =
     (case Mapping.lookup m k of Some v \<Rightarrow> Some v | None \<Rightarrow> map_of ds k)"
  by (induction ds arbitrary: m)
     (auto simp: seed_default_def Mapping.lookup_update' split: option.splits)

lemma seed_keys_finite:
  "finite (Mapping.keys m) \<Longrightarrow> finite (Mapping.keys (fold seed_default ds m))"
  by (induction ds arbitrary: m) (auto simp: seed_default_def)

lemma merged_lookup:
  "Mapping.lookup (merged_codec_options prm) k =
     (case Mapping.lookup (codec_options prm) k of
        Some v \<Rightarrow> Some v
      | None \<Rightarrow> if is_x264_family (codec prm) then map_of default_x264_options k else None)"
  by (simp add: merged_codec_options_def seed_lookup split: option.splits)

lemma merged_finite:
  "finite (Mapping.keys (codec_options prm)) \<Longrightarrow> finite (Mapping.keys (merged_codec_options prm))"
  by (simp add: merged_codec_options_def seed_keys_finite)

lemma dict_entries_set:
  assumes "finite (Mapping.keys m)"
  shows "set (dict_entries m) = {(k, v). Mapping.lookup m k = Some v}"
    and "distinct (map fst (dict_entries m))"
proof -
  show "set (dict_entries m) = {(k, v). Mapping.lookup m k = Some v}"
    using assms by (auto simp: dict_entries_def keys_dom_lookup)
  have "map fst (dict_entries m) = Mapping.ordered_keys m"
    by (simp add: dict_entries_def comp_def)
  then show "distinct (map fst (dict_entries m))" by simp
qed

lemma x264_defaults_alone:
  "dict_entries (fold seed_default default_x264_options Mapping.empty) =
     [(''crf'', ''20''), (''preset'', ''ultrafast''), (''tune'', ''zerolatency'')]"
  by code_simp

lemma write_delayed_bounded_Some:
  "write_delayed_bounded n lib s = Some r \<Longrightarrow> write_delayed lib s = Some r"
proof (induction n arbitrary: s)
  case 0
  then show ?case by simp
next
  case (Suc n)
  obtain e got where eg: "avcodec_encode_video2 lib (enc (fst s)) None = (e, got)"
    by (cases "avcodec_encode_video2 lib (enc (fst s)) None")
  show ?case
  proof (cases got)
    case None
    with Suc.prems eg show ?thesis
      by (subst write_delayed.simps) simp
  next
    case (Some p)
    with Suc.prems eg have
      "write_delayed_bounded n lib
         (finish_frame (log (Avcodec_encode_video2 None (Some p)) ((fst s)\<lparr>enc := e\<rparr>),
                        (snd s)\<lparr>pkt := p\<rparr>)) = Some r"
      by simp
    from Suc.IH[OF this] eg Some show ?thesis
      by (subst write_delayed.simps) simp
  qed
qed

lemma example_finished_eq:
  "FrameWriter_dtor example_lib example_submitted = Some example_finished"
  "example_finished = release_all (the (write_delayed_bounded 2 example_lib example_submitted))"
proof -
  have "write_delayed_bounded 2 example_lib example_submitted =
          Some (the (write_delayed_bounded 2 example_lib example_submitted))"
    by code_simp
  then have w: "write_delayed example_lib example_submitted =
          Some (the (write_delayed_bounded 2 example_lib example_submitted))"
    by (rule write_delayed_bounded_Some)
  then show "FrameWriter_dtor example_lib example_submitted = Some example_finished"
    by (simp add: FrameWriter_dtor_def example_finished_def)
  from w show "example_finished = release_all (the (write_delayed_bounded 2 example_lib example_submitted))"
    by (simp add: FrameWriter_dtor_def example_finished_def)
qed

lemma example_log:
  "map pkt_pts (packets_produced (calls (fst example_finished))) = [0, 1000]"
  "map pkt_pts (packets_written (calls (fst example_finished))) = [0, 60]"
  "map fr_pts (frames_encoded (calls (fst example_finished))) = [0, 1000]"
  "container_writes (calls (fst example_finished)) =
     [Avformat_write_header,
      Av_interleaved_write_frame
        \<lparr>pkt_pts = 0, pkt_dts = 0, pkt_duration = 0, pkt_stream_index = 0, pkt_data = []\<rparr>,
      Av_interleaved_write_frame
        \<lparr>pkt_pts = 60, pkt_dts = 60, pkt_duration = 0, pkt_stream_index = 0, pkt_data = []\<rparr>,
      Av_write_trailer]"
  unfolding example_finished_eq(2) by code_simp+

lemma str_find_sublist: "str_find s pat \<noteq> None \<longleftrightarrow> sublist pat s"
  by (induction s) (auto simp: sublist_Cons_right)

lemma encode_frame_encoded:
  "frames_encoded (calls (fst (encode_frame lib r msec (w, fw)))) =
     frames_encoded (calls w)
     @ [(case r of Encoder_frame \<Rightarrow> encoder_frame fw | Hw_frame \<Rightarrow> hw_frame fw)\<lparr>fr_pts := msec\<rparr>]"
  by (cases "avcodec_encode_video2 lib (enc w) (Some ((case r of Encoder_frame \<Rightarrow> encoder_frame fw | Hw_frame \<Rightarrow> hw_frame fw)\<lparr>fr_pts := msec\<rparr>))")
     (auto simp: encode_frame_def Let_def log_def finish_frame_eq log_simps call_defs
        split: frame_ref.splits option.splits)

lemma add_frame_encoded:
  "\<exists>X. frames_encoded (calls (fst (add_frame lib px msec flip (w, fw)))) =
         frames_encoded (calls w) @ X
     \<and> (map fr_pts X = [] \<or> map fr_pts X = [msec])
     \<and> (hw_device_context fw = None \<longrightarrow> map fr_pts X = [msec])"
proof -
  obtain fp st where yi: "y_inversion fw px flip = (fp, st)" by (cases "y_inversion fw px flip")
  let ?fw1 = "fw\<lparr>encoder_frame := (encoder_frame fw)\<lparr>fr_data0 := fp, fr_linesize0 := st\<rparr>\<rparr>"
  show ?thesis
  proof (cases "hw_device_context fw \<noteq> None")
    case True
    obtain ret d where tr: "av_hwframe_transfer_data lib (dev w) (encoder_frame ?fw1) = (ret, d)"
      by (cases "av_hwframe_transfer_data lib (dev w) (encoder_frame ?fw1)")
    show ?thesis
    proof (cases "ret = 0")
      case False
      with True yi tr show ?thesis
        by (simp add: add_frame_def Let_def log_def log_simps call_defs)
    next
      case ok: True
      with True yi tr show ?thesis
        by (simp add: add_frame_def Let_def encode_frame_encoded log_def log_simps call_defs)
    qed
  next
    case sw: False
    with yi show ?thesis
      by (simp add: add_frame_def encode_frame_encoded log_def log_simps call_defs)
  qed
qed

lemma add_frames_encoded:
  "\<exists>X. frames_encoded (calls (fst (add_frames lib frames s))) =
         frames_encoded (calls (fst s)) @ X
     \<and> subseq (map fr_pts X) (map (\<lambda>fr. fst (snd fr)) frames)
     \<and> (hw_device_context (snd s) = None \<longrightarrow> map fr_pts X = map (\<lambda>fr. fst (snd fr)) frames)"
proof (induction frames rule: rev_induct)
  case Nil
  show ?case by (rule exI[of _ "[]"]) (simp add: add_frames_def)
next
  case (snoc fr frames)
  let ?s1 = "add_frames lib frames s"
  from snoc obtain X where xx: "frames_encoded (calls (fst ?s1)) = frames_encoded (calls (fst s)) @ X
    \<and> subseq (map fr_pts X) (map (\<lambda>fr. fst (snd fr)) frames)
    \<and> (hw_device_context (snd s) = None \<longrightarrow> map fr_pts X = map (\<lambda>fr. fst (snd fr)) frames)"
    by (rule exE)
  note x = xx[THEN conjunct1] xx[THEN conjunct2, THEN conjunct1]
    xx[THEN conjunct2, THEN conjunct2]
  from add_frames_log[of lib frames s] have "settings (snd ?s1) = settings (snd s)" by blast
  then have hw: "hw_device_context (snd ?s1) = hw_device_context (snd s)"
    by (simp add: settings_def)
  note E = add_frame_encoded[of lib "fst fr" "fst (snd fr)" "snd (snd fr)" "fst ?s1" "snd ?s1",
      unfolded prod.collapse, folded add_frames_snoc]
  from E obtain Y where yy: "frames_encoded (calls (fst (add_frames lib (frames @ [fr]) s))) =
         frames_encoded (calls (fst ?s1)) @ Y
     \<and> (map fr_pts Y = [] \<or> map fr_pts Y = [fst (snd fr)])
     \<and> (hw_device_context (snd ?s1) = None \<longrightarrow> map fr_pts Y = [fst (snd fr)])"
    by (rule exE)
  note y = yy[THEN conjunct1] yy[THEN conjunct2, THEN conjunct1]
    yy[THEN conjunct2, THEN conjunct2]
  from y(2) have "subseq (map fr_pts Y) [fst (snd fr)]"
    by (rule disjE) simp_all
  with x(2) have "subseq (map fr_pts X @ map fr_pts Y) (map (\<lambda>fr. fst (snd fr)) frames @ [fst (snd fr)])"
    by (rule list_emb_append_mono)
  then have e: "subseq (map fr_pts (X @ Y)) (map (\<lambda>fr. fst (snd fr)) (frames @ [fr]))"
    by simp
  have f: "frames_encoded (calls (fst (add_frames lib (frames @ [fr]) s))) =
         frames_encoded (calls (fst s)) @ (X @ Y)"
    by (simp add: y(1) x(1))
  have g: "map fr_pts (X @ Y) = map (\<lambda>fr. fst (snd fr)) (frames @ [fr])"
    if "hw_device_context (snd s) = None"
    using that x(3) y(3) hw by simp
  show ?case
  proof (intro exI[of _ "X @ Y"] conjI impI)
    show "frames_encoded (calls (fst (add_frames lib (frames @ [fr]) s))) =
         frames_encoded (calls (fst s)) @ (X @ Y)" by (rule f)
    show "subseq (map fr_pts (X @ Y)) (map (\<lambda>fr. fst (snd fr)) (frames @ [fr]))" by (rule e)
    show "map fr_pts (X @ Y) = map (\<lambda>fr. fst (snd fr)) (frames @ [fr])"
      if "hw_device_context (snd s) = None" using that by (rule g)
  qed
qed

lemma example_mp4_facts:
  "FrameWriter_ctor example_mp4_lib example_params example_world = Inr example_mp4_constructed"
  "flush_ends_within example_mp4_lib 1 (enc (fst example_mp4_submitted))"
  "FrameWriter_dtor example_mp4_lib example_mp4_submitted = Some example_mp4_finished"
proof -
  show "FrameWriter_ctor example_mp4_lib example_params example_world = Inr example_mp4_constructed"
    by code_simp
  show "flush_ends_within example_mp4_lib 1 (enc (fst example_mp4_submitted))"
    by code_simp
  have "write_delayed_bounded 2 example_mp4_lib example_mp4_submitted =
          Some (the (write_delayed_bounded 2 example_mp4_lib example_mp4_submitted))"
    by code_simp
  then have "write_delayed example_mp4_lib example_mp4_submitted =
          Some (the (write_delayed_bounded 2 example_mp4_lib example_mp4_submitted))"
    by (rule write_delayed_bounded_Some)
  then show "FrameWriter_dtor example_mp4_lib example_mp4_submitted = Some example_mp4_finished"
    by (simp add: FrameWriter_dtor_def example_mp4_finished_def)
qed

section \<open>Format negotiation\<close>

lemma is_fmt_supported_terminated:
  "AV_PIX_FMT_NONE \<in> set arr \<Longrightarrow>
   is_fmt_supported fmt arr = Some (fmt \<in> set (supported_formats arr))"
  by (induction arr) (auto simp: supported_formats_def)

lemma supported_formats_Cons:
  "supported_formats (f # rest) =
     (if f = AV_PIX_FMT_NONE then [] else f # supported_formats rest)"
  by (simp add: supported_formats_def)

lemma choose_sw_format_terminated:
  assumes "AV_PIX_FMT_NONE \<in> set (pix_fmts cdc)"
  shows "choose_sw_format fw cdc =
           Some (if get_input_format fw \<in> set (supported_formats (pix_fmts cdc))
                 then get_input_format fw
                 else if AV_PIX_FMT_YUV420P \<in> set (supported_formats (pix_fmts cdc))
                 then AV_PIX_FMT_YUV420P
                 else (case supported_formats (pix_fmts cdc) of
                         [] \<Rightarrow> AV_PIX_FMT_NONE | f # _ \<Rightarrow> f))"
proof (cases "pix_fmts cdc")
  case Nil
  with assms show ?thesis by simp
next
  case (Cons f rest)
  with assms show ?thesis
    by (simp add: choose_sw_format_def Let_def is_fmt_supported_terminated
        supported_formats_Cons del: is_fmt_supported.simps)
qed

text \<open>
  Claim C2. For every array of formats that has its terminator and every native format of
  the caller (BGR0 when the \<open>format\<close> parameter is \<open>INPUT_FORMAT_BGR0\<close>, RGB0 otherwise),
  \<open>choose_sw_format\<close> returns the native format if it is among the formats before the
  terminator; otherwise planar YUV 4:2:0 if that is among them; otherwise the first format
  of the list (the first cell of the array, which is the terminator itself when the list is
  empty).
\<close>

theorem choose_sw_format_preference:
  assumes "AV_PIX_FMT_NONE \<in> set (pix_fmts cdc)"
  shows "choose_sw_format fw cdc =
           Some (let native = (case format (params fw) of
                                 INPUT_FORMAT_BGR0 \<Rightarrow> AV_PIX_FMT_BGR0
                               | INPUT_FORMAT_RGB0 \<Rightarrow> AV_PIX_FMT_RGB0)
                 in if native \<in> set (supported_formats (pix_fmts cdc))
                    then native
                    else if AV_PIX_FMT_YUV420P \<in> set (supported_formats (pix_fmts cdc))
                    then AV_PIX_FMT_YUV420P
                    else (case supported_formats (pix_fmts cdc) of
                            [] \<Rightarrow> AV_PIX_FMT_NONE | f # _ \<Rightarrow> f))"
proof -
  have "get_input_format fw = (case format (params fw) of
                                 INPUT_FORMAT_BGR0 \<Rightarrow> AV_PIX_FMT_BGR0
                               | INPUT_FORMAT_RGB0 \<Rightarrow> AV_PIX_FMT_RGB0)"
    by (simp add: get_input_format_def split: InputFormat.splits)
  with choose_sw_format_terminated[OF assms, of fw] show ?thesis
    by (simp add: Let_def)
qed

theorem choose_sw_format_preference_witness:
  "AV_PIX_FMT_NONE \<in> set (pix_fmts example_both_codec)
   \<and> AV_PIX_FMT_NONE \<in> set (pix_fmts example_codec)
   \<and> format (params (new_object example_params)) = INPUT_FORMAT_BGR0
   \<and> format (params (new_object example_rgb0_params)) = INPUT_FORMAT_RGB0
   \<and> choose_sw_format (new_object example_params) example_both_codec = Some AV_PIX_FMT_BGR0
   \<and> choose_sw_format (new_object example_rgb0_params) example_both_codec = Some AV_PIX_FMT_RGB0
   \<and> choose_sw_format (new_object example_rgb0_params) example_codec = Some AV_PIX_FMT_YUV420P
   \<and> choose_sw_format (new_object example_params) example_codec = Some AV_PIX_FMT_YUV420P"
proof -
  have h1: "AV_PIX_FMT_NONE \<in> set (pix_fmts example_both_codec)"
    by (simp add: example_both_codec_def)
  have h2: "AV_PIX_FMT_NONE \<in> set (pix_fmts example_codec)"
    by (simp add: example_codec_def)
  have f: "format (params (new_object example_params)) = INPUT_FORMAT_BGR0"
    "format (params (new_object example_rgb0_params)) = INPUT_FORMAT_RGB0"
    by (simp_all add: example_params_def example_rgb0_params_def)
  have s: "supported_formats (pix_fmts example_both_codec) =
             [AV_PIX_FMT_YUV420P, AV_PIX_FMT_BGR0, AV_PIX_FMT_RGB0]"
    "supported_formats (pix_fmts example_codec) = [AV_PIX_FMT_OTHER 7, AV_PIX_FMT_YUV420P]"
    by (simp_all add: example_both_codec_def example_codec_def supported_formats_def)
  from choose_sw_format_preference[OF h1, of "new_object example_params"]
    choose_sw_format_preference[OF h1, of "new_object example_rgb0_params"]
    choose_sw_format_preference[OF h2, of "new_object example_rgb0_params"]
    choose_sw_format_preference[OF h2, of "new_object example_params"]
    h1 h2 f
  show ?thesis by (simp add: s)
qed

text \<open>
  Claim C10. For an array of formats that has its terminator: when its first cell is not
  the terminator, the format \<open>choose_sw_format\<close> returns is one of the formats of the list;
  when its first cell is the terminator, the list is empty and the function returns the
  terminator, which is not a format of the list.
\<close>

theorem choose_sw_format_in_list:
  assumes "pix_fmts cdc = first # rest"
    and "AV_PIX_FMT_NONE \<in> set (pix_fmts cdc)"
  shows "(first \<noteq> AV_PIX_FMT_NONE \<longrightarrow>
            (\<exists>f. choose_sw_format fw cdc = Some f \<and> f \<in> set (supported_formats (pix_fmts cdc))))
       \<and> (first = AV_PIX_FMT_NONE \<longrightarrow>
            supported_formats (pix_fmts cdc) = []
          \<and> choose_sw_format fw cdc = Some AV_PIX_FMT_NONE
          \<and> AV_PIX_FMT_NONE \<notin> set (supported_formats (pix_fmts cdc)))"
  using choose_sw_format_terminated[OF assms(2), of fw] assms(1)
  by (auto simp: supported_formats_Cons)

theorem choose_sw_format_in_list_witness:
  "pix_fmts example_codec =
     AV_PIX_FMT_OTHER 7 # [AV_PIX_FMT_YUV420P, AV_PIX_FMT_NONE, AV_PIX_FMT_BGR0]
   \<and> AV_PIX_FMT_NONE \<in> set (pix_fmts example_codec)
   \<and> (\<exists>f. choose_sw_format (new_object example_params) example_codec = Some f
          \<and> f \<in> set (supported_formats (pix_fmts example_codec)))
   \<and> pix_fmts example_empty_codec = AV_PIX_FMT_NONE # []
   \<and> AV_PIX_FMT_NONE \<in> set (pix_fmts example_empty_codec)
   \<and> supported_formats (pix_fmts example_empty_codec) = []
   \<and> choose_sw_format (new_object example_params) example_empty_codec = Some AV_PIX_FMT_NONE"
proof -
  have h1: "pix_fmts example_codec =
     AV_PIX_FMT_OTHER 7 # [AV_PIX_FMT_YUV420P, AV_PIX_FMT_NONE, AV_PIX_FMT_BGR0]"
    by (simp add: example_codec_def)
  have h2: "AV_PIX_FMT_NONE \<in> set (pix_fmts example_codec)"
    by (simp add: example_codec_def)
  have h3: "pix_fmts example_empty_codec = AV_PIX_FMT_NONE # []"
    by (simp add: example_empty_codec_def)
  have h4: "AV_PIX_FMT_NONE \<in> set (pix_fmts example_empty_codec)"
    by (simp add: example_empty_codec_def)
  from choose_sw_format_in_list [OF h1 h2, of "new_object example_params"]
    choose_sw_format_in_list [OF h3 h4, of "new_object example_params"] h1 h2 h3 h4
  show ?thesis by simp
qed

section \<open>Codec options\<close>

text \<open>
  Claim C5. For every finite option map of the caller, the option map after
  \<open>load_codec_options\<close> gives each key the caller's value when the caller supplied one, and
  otherwise, when the codec name contains \<open>libx264\<close> or contains \<open>libx265\<close>, the default of
  that key among tune=zerolatency, preset=ultrafast, crf=20 (otherwise nothing); the pairs
  set in the dictionary are exactly the pairs of that map, one per key; for a codec name
  that contains \<open>libx264\<close> with no caller options they are exactly the three defaults; and
  for a codec name that contains neither, the option map is the caller's, unchanged.
\<close>

theorem load_codec_options_defaults:
  assumes "finite (Mapping.keys (codec_options (params fw)))"
  shows "(\<forall>k. Mapping.lookup (codec_options (params (fst (load_codec_options fw)))) k =
             (case Mapping.lookup (codec_options (params fw)) k of
                Some v \<Rightarrow> Some v
              | None \<Rightarrow> if sublist ''libx264'' (codec (params fw))
                           \<or> sublist ''libx265'' (codec (params fw))
                        then map_of [(''tune'', ''zerolatency''), (''preset'', ''ultrafast''),
                                     (''crf'', ''20'')] k
                        else None))
       \<and> set (snd (load_codec_options fw)) =
           {(k, v). Mapping.lookup (codec_options (params (fst (load_codec_options fw)))) k = Some v}
       \<and> distinct (map fst (snd (load_codec_options fw)))
       \<and> (sublist ''libx264'' (codec (params fw))
            \<and> codec_options (params fw) = Mapping.empty \<longrightarrow>
          snd (load_codec_options fw) =
            [(''crf'', ''20''), (''preset'', ''ultrafast''), (''tune'', ''zerolatency'')])
       \<and> (\<not> sublist ''libx264'' (codec (params fw))
            \<and> \<not> sublist ''libx265'' (codec (params fw)) \<longrightarrow>
          codec_options (params (fst (load_codec_options fw))) = codec_options (params fw))"
proof -
  have d: "map_of default_x264_options k =
             map_of [(''tune'', ''zerolatency''), (''preset'', ''ultrafast''), (''crf'', ''20'')] k" for k
    by (simp add: default_x264_options_def)
  have fam: "is_x264_family (codec (params fw)) \<longleftrightarrow>
               sublist ''libx264'' (codec (params fw)) \<or> sublist ''libx265'' (codec (params fw))"
    by (simp only: is_x264_family_def str_find_sublist)
  have a: "fst (load_codec_options fw) =
             fw\<lparr>params := (params fw)\<lparr>codec_options := merged_codec_options (params fw)\<rparr>\<rparr>"
    "snd (load_codec_options fw) = dict_entries (merged_codec_options (params fw))"
    by (simp_all add: load_codec_options_def Let_def)
  note fin = merged_finite[OF assms]
  show ?thesis
    unfolding a
    apply (intro conjI allI impI)
        apply (simp add: merged_lookup d fam split: option.splits)
       apply (simp add: dict_entries_set(1)[OF fin])
      apply (rule dict_entries_set(2)[OF fin])
     apply (simp add: merged_codec_options_def fam x264_defaults_alone)
    apply (simp add: merged_codec_options_def fam)
    done
qed

theorem load_codec_options_defaults_witness:
  "finite (Mapping.keys (codec_options (params (new_object example_params))))
   \<and> sublist ''libx264'' (codec (params (new_object example_params)))
   \<and> codec_options (params (new_object example_params)) = Mapping.empty
   \<and> snd (load_codec_options (new_object example_params)) =
        [(''crf'', ''20''), (''preset'', ''ultrafast''), (''tune'', ''zerolatency'')]
   \<and> finite (Mapping.keys (codec_options (params (new_object example_x265_params))))
   \<and> sublist ''libx265'' (codec (params (new_object example_x265_params)))
   \<and> Mapping.lookup (codec_options (params (new_object example_x265_params))) ''crf'' = Some ''10''
   \<and> Mapping.lookup (codec_options (params (new_object example_x265_params))) ''tune'' = None
   \<and> Mapping.lookup (codec_options (params (fst (load_codec_options
          (new_object example_x265_params))))) ''crf'' = Some ''10''
   \<and> Mapping.lookup (codec_options (params (fst (load_codec_options
          (new_object example_x265_params))))) ''tune'' = Some ''zerolatency''
   \<and> snd (load_codec_options (new_object example_x265_params)) =
        [(''crf'', ''10''), (''preset'', ''ultrafast''), (''tune'', ''zerolatency'')]
   \<and> finite (Mapping.keys (codec_options (params (new_object example_hw_params))))
   \<and> \<not> sublist ''libx264'' (codec (params (new_object example_hw_params)))
   \<and> \<not> sublist ''libx265'' (codec (params (new_object example_hw_params)))
   \<and> codec_options (params (fst (load_codec_options (new_object example_hw_params))))
        = codec_options (params (new_object example_hw_params))"
proof -
  have h1: "finite (Mapping.keys (codec_options (params (new_object example_params))))"
    by (simp add: example_params_def)
  have h2: "finite (Mapping.keys (codec_options (params (new_object example_x265_params))))"
    by (simp add: example_x265_params_def example_options_def)
  have h3: "finite (Mapping.keys (codec_options (params (new_object example_hw_params))))"
    by (simp add: example_hw_params_def example_params_def)
  have c1: "sublist ''libx264'' (codec (params (new_object example_params)))"
    "codec_options (params (new_object example_params)) = Mapping.empty"
    by (simp_all add: example_params_def)
  have c2: "sublist ''libx265'' (codec (params (new_object example_x265_params)))"
    by (simp add: example_x265_params_def)
  have c3: "\<not> sublist ''libx264'' (codec (params (new_object example_hw_params)))"
    "\<not> sublist ''libx265'' (codec (params (new_object example_hw_params)))"
    unfolding str_find_sublist[symmetric]
    by (simp_all add: example_hw_params_def example_params_def)
  have l: "Mapping.lookup (codec_options (params (new_object example_x265_params))) ''crf'' = Some ''10''"
    "Mapping.lookup (codec_options (params (new_object example_x265_params))) ''tune'' = None"
    by (simp_all add: example_x265_params_def example_options_def)
  have e: "snd (load_codec_options (new_object example_x265_params)) =
        [(''crf'', ''10''), (''preset'', ''ultrafast''), (''tune'', ''zerolatency'')]"
    by code_simp
  note T1 = load_codec_options_defaults[OF h1]
    and T2 = load_codec_options_defaults[OF h2]
    and T3 = load_codec_options_defaults[OF h3]
  have r1: "snd (load_codec_options (new_object example_params)) =
        [(''crf'', ''20''), (''preset'', ''ultrafast''), (''tune'', ''zerolatency'')]"
    using T1 c1 by blast
  have r2: "Mapping.lookup (codec_options (params (fst (load_codec_options
          (new_object example_x265_params))))) ''crf'' = Some ''10''"
    "Mapping.lookup (codec_options (params (fst (load_codec_options
          (new_object example_x265_params))))) ''tune'' = Some ''zerolatency''"
    using T2[THEN conjunct1, rule_format, of "''crf''"] T2[THEN conjunct1, rule_format, of "''tune''"]
      c2 l by simp_all
  have r3: "codec_options (params (fst (load_codec_options (new_object example_hw_params))))
        = codec_options (params (new_object example_hw_params))"
    using T3 c3 by blast
  from h1 h2 h3 c1 c2 c3 l e r1 r2 r3 show ?thesis by (intro conjI)
qed

section \<open>The session: header, packets, flush, trailer\<close>



section \<open>Timestamps\<close>

text \<open>
  Claim C4, as stated, fails: \<open>finish_frame\<close> rescales to the time base the stream has when
  the packet is written, and the muxer may have replaced the 1/60 the constructor asked for
  while writing the header. With a muxer that sets 1/15360, the frame submitted at 1000 ms
  is written with timestamp 15360, not 60.
\<close>

theorem muxer_time_base_counterexample:
  "FrameWriter_ctor example_mp4_lib example_params example_world = Inr example_mp4_constructed
   \<and> FrameWriter_dtor example_mp4_lib example_mp4_submitted = Some example_mp4_finished
   \<and> map (fst \<circ> snd) example_frames = [0, 1000]
   \<and> map fr_pts (frames_encoded (calls (fst example_mp4_finished))) = [0, 1000]
   \<and> map pkt_pts (packets_produced (calls (fst example_mp4_finished))) = [0, 1000]
   \<and> st_time_base (stream (snd example_mp4_submitted)) = (1, 15360)
   \<and> map pkt_pts (packets_written (calls (fst example_mp4_finished))) = [0, 15360]
   \<and> av_rescale_q 1000 (1, 1000) (1, 60) = 60"
proof -
  have "map (fst \<circ> snd) example_frames = [0, 1000]"
    by (simp add: example_frames_def)
  moreover have "map fr_pts (frames_encoded (calls (fst example_mp4_finished))) = [0, 1000]"
    "map pkt_pts (packets_produced (calls (fst example_mp4_finished))) = [0, 1000]"
    "st_time_base (stream (snd example_mp4_submitted)) = (1, 15360)"
    "map pkt_pts (packets_written (calls (fst example_mp4_finished))) = [0, 15360]"
    by code_simp+
  ultimately show ?thesis
    using example_mp4_facts(1,3) rescale_one_second by (intro conjI)
qed

text \<open>
  Claim C4, amended. In a session whose construction succeeded, the time base of the stream
  is the one the muxer left when it wrote the header, having been given 1/60; the frames
  given to the encoder carry, in order, the millisecond timestamps of submitted frames (of
  all of them on the software path); the timestamp of every packet written is the timestamp
  of the packet the encoder reported, rescaled from 1/1000 to the time base of the stream
  (an unset timestamp stays unset), so that on the software path, with an encoder whose
  packets carry the timestamps of the frames, the timestamps written are the submitted ones
  rescaled; and when the muxer keeps 1/60, 1000 rescales to 60.
\<close>

theorem packet_timestamps_rescaled:
  assumes ctor: "FrameWriter_ctor lib prm w0 = Inr s1"
    and fresh: "calls w0 = []"
    and frames: "s2 = add_frames lib frames s1"
    and ends: "flush_ends_within lib n (enc (fst s2))"
  shows "\<exists>s3 requested.
       FrameWriter_dtor lib s2 = Some s3
     \<and> st_time_base requested = (1, 60)
     \<and> stream (snd s2) =
         requested\<lparr>st_time_base := snd (avformat_write_header lib requested)\<rparr>
     \<and> subseq (map fr_pts (frames_encoded (calls (fst s3)))) (map (\<lambda>fr. fst (snd fr)) frames)
     \<and> (\<not> hw_path_active s1 \<longrightarrow>
          map fr_pts (frames_encoded (calls (fst s3))) = map (\<lambda>fr. fst (snd fr)) frames)
     \<and> map pkt_pts (packets_written (calls (fst s3))) =
         map (\<lambda>p. if pkt_pts p = AV_NOPTS_VALUE then AV_NOPTS_VALUE
                   else av_rescale_q (pkt_pts p) (1, 1000) (st_time_base (stream (snd s2))))
           (packets_produced (calls (fst s3)))
     \<and> (\<not> hw_path_active s1
          \<and> map pkt_pts (packets_produced (calls (fst s3))) =
              map fr_pts (frames_encoded (calls (fst s3))) \<longrightarrow>
          map pkt_pts (packets_written (calls (fst s3))) =
            map (\<lambda>t. if t = AV_NOPTS_VALUE then AV_NOPTS_VALUE
                      else av_rescale_q t (1, 1000) (st_time_base (stream (snd s2))))
              (map (\<lambda>fr. fst (snd fr)) frames))
     \<and> (snd (avformat_write_header lib requested) = (1, 60) \<longrightarrow>
          st_time_base (stream (snd s2)) = (1, 60)
        \<and> av_rescale_q 1000 (1, 1000) (st_time_base (stream (snd s2))) = 60)"
proof -
  obtain w1 fw1 where s: "s1 = (w1, fw1)" by (cases s1)
  note C = ctor_Inr[OF ctor[unfolded s]]
  from C(2) obtain requested where
    rq: "st_time_base requested = (1, 60)"
      "stream fw1 = requested\<lparr>st_time_base := snd (avformat_write_header lib requested)\<rparr>"
    by (auto simp: FPS_def)
  from session[OF ctor frames ends] obtain s3 new1 new2 ps where
    d: "FrameWriter_dtor lib s2 = Some s3"
    and c: "calls (fst s1) = calls w0 @ new1" "calls (fst s2) = calls (fst s1) @ new2"
      "calls (fst s3) = calls (fst s2) @ concat (map (flush_round (stream (snd s2))) ps)
          @ [Avcodec_encode_video2 None None, Av_write_trailer] @ release_calls (snd s2)"
    and n: "container_writes new1 = [Avformat_write_header]" "packets_produced new1 = []"
      "frames_encoded new1 = []"
      "container_writes new2 =
         map (\<lambda>p. Av_interleaved_write_frame (stream_packet (stream (snd s2)) p))
           (packets_produced new2)"
      "settings (snd s2) = settings (snd s1)"
    by blast
  have st: "stream (snd s2) = requested\<lparr>st_time_base := snd (avformat_write_header lib requested)\<rparr>"
    using n(5) rq(2) by (simp add: settings_def s)
  from add_frames_encoded[of lib frames s1] obtain X where
    xx: "frames_encoded (calls (fst (add_frames lib frames s1))) =
           frames_encoded (calls (fst s1)) @ X
     \<and> subseq (map fr_pts X) (map (\<lambda>fr. fst (snd fr)) frames)
     \<and> (hw_device_context (snd s1) = None \<longrightarrow> map fr_pts X = map (\<lambda>fr. fst (snd fr)) frames)"
    by (rule exE)
  have e1: "frames_encoded (calls (fst s1)) = []"
    by (simp add: c(1) fresh n log_simps)
  have fe: "frames_encoded (calls (fst s3)) = X"
    using xx[THEN conjunct1] e1
    by (simp add: c(3) frames log_simps flush_rounds_log release_calls_log call_defs)
  have sub: "subseq (map fr_pts (frames_encoded (calls (fst s3)))) (map (\<lambda>fr. fst (snd fr)) frames)"
    unfolding fe by (rule xx[THEN conjunct2, THEN conjunct1])
  have eq: "map fr_pts (frames_encoded (calls (fst s3))) = map (\<lambda>fr. fst (snd fr)) frames"
    if "\<not> hw_path_active s1"
    unfolding fe using that xx[THEN conjunct2, THEN conjunct2] by (simp add: hw_path_active_def)
  have cw: "container_writes (calls (fst s3)) =
        Avformat_write_header
        # map (\<lambda>p. Av_interleaved_write_frame (stream_packet (stream (snd s2)) p))
            (packets_produced (calls (fst s3)))
        @ [Av_write_trailer]"
    by (simp add: c fresh n log_simps flush_rounds_log release_calls_log call_defs)
  have "packets_written (calls (fst s3)) =
          map (stream_packet (stream (snd s2))) (packets_produced (calls (fst s3)))"
    by (subst packets_written_container_writes) (simp add: cw log_simps call_defs)
  then have wr: "map pkt_pts (packets_written (calls (fst s3))) =
         map (\<lambda>p. if pkt_pts p = AV_NOPTS_VALUE then AV_NOPTS_VALUE
                   else av_rescale_q (pkt_pts p) (1, 1000) (st_time_base (stream (snd s2))))
           (packets_produced (calls (fst s3)))"
    by (simp add: stream_packet_pts comp_def)
  have ee: "map pkt_pts (packets_written (calls (fst s3))) =
            map (\<lambda>t. if t = AV_NOPTS_VALUE then AV_NOPTS_VALUE
                      else av_rescale_q t (1, 1000) (st_time_base (stream (snd s2))))
              (map (\<lambda>fr. fst (snd fr)) frames)"
    if h: "\<not> hw_path_active s1 \<and> map pkt_pts (packets_produced (calls (fst s3))) =
              map fr_pts (frames_encoded (calls (fst s3)))"
  proof -
    from h eq have "map pkt_pts (packets_produced (calls (fst s3))) = map (\<lambda>fr. fst (snd fr)) frames"
      by simp
    then have "map (\<lambda>t. if t = AV_NOPTS_VALUE then AV_NOPTS_VALUE
                      else av_rescale_q t (1, 1000) (st_time_base (stream (snd s2))))
              (map (\<lambda>fr. fst (snd fr)) frames)
        = map (\<lambda>t. if t = AV_NOPTS_VALUE then AV_NOPTS_VALUE
                      else av_rescale_q t (1, 1000) (st_time_base (stream (snd s2))))
              (map pkt_pts (packets_produced (calls (fst s3))))"
      by simp
    then show ?thesis unfolding wr by (simp add: comp_def)
  qed
  have last: "st_time_base (stream (snd s2)) = (1, 60)
        \<and> av_rescale_q 1000 (1, 1000) (st_time_base (stream (snd s2))) = 60"
    if "snd (avformat_write_header lib requested) = (1, 60)"
    using that by (simp add: st rescale_one_second)
  show ?thesis
  proof (intro exI[of _ s3] exI[of _ requested] conjI impI)
    show "FrameWriter_dtor lib s2 = Some s3" by (rule d)
    show "st_time_base requested = (1, 60)" by (rule rq(1))
    show "stream (snd s2) = requested\<lparr>st_time_base := snd (avformat_write_header lib requested)\<rparr>"
      by (rule st)
    show "subseq (map fr_pts (frames_encoded (calls (fst s3)))) (map (\<lambda>fr. fst (snd fr)) frames)"
      by (rule sub)
    show "map fr_pts (frames_encoded (calls (fst s3))) = map (\<lambda>fr. fst (snd fr)) frames"
      if "\<not> hw_path_active s1" using that by (rule eq)
    show "map pkt_pts (packets_written (calls (fst s3))) =
         map (\<lambda>p. if pkt_pts p = AV_NOPTS_VALUE then AV_NOPTS_VALUE
                   else av_rescale_q (pkt_pts p) (1, 1000) (st_time_base (stream (snd s2))))
           (packets_produced (calls (fst s3)))" by (rule wr)
    show "map pkt_pts (packets_written (calls (fst s3))) =
            map (\<lambda>t. if t = AV_NOPTS_VALUE then AV_NOPTS_VALUE
                      else av_rescale_q t (1, 1000) (st_time_base (stream (snd s2))))
              (map (\<lambda>fr. fst (snd fr)) frames)"
      if "\<not> hw_path_active s1 \<and> map pkt_pts (packets_produced (calls (fst s3))) =
              map fr_pts (frames_encoded (calls (fst s3)))" using that by (rule ee)
    show "st_time_base (stream (snd s2)) = (1, 60)"
      if "snd (avformat_write_header lib requested) = (1, 60)"
      by (rule last[OF that, THEN conjunct1])
    show "av_rescale_q 1000 (1, 1000) (st_time_base (stream (snd s2))) = 60"
      if "snd (avformat_write_header lib requested) = (1, 60)"
      by (rule last[OF that, THEN conjunct2])
  qed
qed

theorem packet_timestamps_rescaled_witness:
  "FrameWriter_ctor example_lib example_params example_world = Inr example_constructed
   \<and> calls example_world = []
   \<and> flush_ends_within example_lib 1 (enc (fst example_submitted))
   \<and> FrameWriter_dtor example_lib example_submitted = Some example_finished
   \<and> \<not> hw_path_active example_constructed
   \<and> st_time_base (stream (snd example_submitted)) = (1, 60)
   \<and> map (\<lambda>fr. fst (snd fr)) example_frames = [0, 1000]
   \<and> map fr_pts (frames_encoded (calls (fst example_finished))) = [0, 1000]
   \<and> map pkt_pts (packets_produced (calls (fst example_finished))) = [0, 1000]
   \<and> map pkt_pts (packets_written (calls (fst example_finished))) =
        map (\<lambda>t. if t = AV_NOPTS_VALUE then AV_NOPTS_VALUE
                  else av_rescale_q t (1, 1000) (st_time_base (stream (snd example_submitted))))
          [0, 1000]
   \<and> map pkt_pts (packets_written (calls (fst example_finished))) = [0, 60]"
proof -
  note h = example_session_facts(1,2,4)
  have sw: "\<not> hw_path_active example_constructed"
    by code_simp
  have tb: "st_time_base (stream (snd example_submitted)) = (1, 60)"
    by code_simp
  have fr: "map (\<lambda>fr. fst (snd fr)) example_frames = [0, 1000]"
    by (simp add: example_frames_def)
  from packet_timestamps_rescaled[OF h(1,2) example_submitted_def h(3)]
  obtain s3 requested where
    d: "FrameWriter_dtor example_lib example_submitted = Some s3"
    and e: "\<not> hw_path_active example_constructed
          \<and> map pkt_pts (packets_produced (calls (fst s3))) =
              map fr_pts (frames_encoded (calls (fst s3))) \<longrightarrow>
          map pkt_pts (packets_written (calls (fst s3))) =
            map (\<lambda>t. if t = AV_NOPTS_VALUE then AV_NOPTS_VALUE
                      else av_rescale_q t (1, 1000) (st_time_base (stream (snd example_submitted))))
              (map (\<lambda>fr. fst (snd fr)) example_frames)"
    by (elim exE conjE) (rule that)
  from d have s3: "s3 = example_finished"
    by (simp add: example_finished_eq(1))
  have p: "\<not> hw_path_active example_constructed
          \<and> map pkt_pts (packets_produced (calls (fst example_finished))) =
              map fr_pts (frames_encoded (calls (fst example_finished)))"
    using sw by (simp only: example_log(1,3) simp_thms)
  note w = e[unfolded s3, THEN mp, OF p, unfolded fr]
  show ?thesis
    by (intro conjI h example_finished_eq(1) sw tb fr example_log(1,2,3) w)
qed

section \<open>The hardware path\<close>

text \<open>
  Claim C3, as stated, fails: a configuration with a device identifier and a software
  encoder is constructed on the software path. No hardware device is created and the
  scaler is.
\<close>

theorem hw_device_alone_counterexample:
  "hw_device example_device_params \<noteq> []
   \<and> FrameWriter_ctor example_lib example_device_params example_world
        = Inr example_device_constructed
   \<and> \<not> hw_path_active example_device_constructed
   \<and> acquisitions (calls (fst example_device_constructed)) = software_acquisitions"
  by code_simp

text \<open>
  Claim C3, amended. The hardware path is active after construction exactly when the codec
  name contains \<open>vaapi\<close>; the device field is the identifier the device is created with.
  On the hardware path the software choice of a pixel format is skipped: the pixel format
  of the encoder is the hardware format, no scaler is created, and the format of the frame
  pool is the first format of the device constraints, with NV12 as the format on the CPU
  side.
\<close>

theorem hardware_path_by_codec_name:
  assumes ctor: "FrameWriter_ctor lib prm w0 = Inr s"
    and fresh: "calls w0 = []"
  shows "(hw_path_active s \<longleftrightarrow> str_find (codec prm) ''vaapi'' \<noteq> None)
       \<and> (hw_path_active s \<longrightarrow>
            hw_device_context (snd s) = Some (hw_device prm)
          \<and> cc_pix_fmt (codecCtx (snd s)) = AV_PIX_FMT_VAAPI
          \<and> swsCtx (snd s) = None
          \<and> acquisitions (calls (fst s)) = hardware_acquisitions
          \<and> (\<exists>fmt0 rest.
                av_hwdevice_get_hwframe_constraints lib (hw_device prm) = Some (fmt0 # rest)
              \<and> hw_frame_context (snd s) =
                  Some \<lparr>hwf_width = width prm, hwf_height = height prm,
                        hwf_format = fmt0, hwf_sw_format = AV_PIX_FMT_NV12\<rparr>))"
proof -
  obtain w fw where s: "s = (w, fw)" by (cases s)
  note C = ctor_Inr[OF ctor[unfolded s]]
  from C(1) fresh obtain new where
    n: "calls w = new" "acquisitions new = (if str_find (codec prm) ''vaapi'' \<noteq> None
                            then hardware_acquisitions else software_acquisitions)"
    by auto
  show ?thesis
  proof (cases "str_find (codec prm) ''vaapi'' \<noteq> None")
    case True
    from C(4)[OF True] True n show ?thesis
      by (auto simp: s hw_path_active_def)
  next
    case False
    then have "str_find (codec prm) ''vaapi'' = None" by simp
    from C(5)[OF this] False show ?thesis
      by (simp add: s hw_path_active_def)
  qed
qed

theorem hardware_path_by_codec_name_witness:
  "FrameWriter_ctor example_lib example_hw_params example_world
     = Inr example_hw_constructed
   \<and> calls example_world = []
   \<and> hw_device example_hw_params = []
   \<and> hw_path_active example_hw_constructed
   \<and> cc_pix_fmt (codecCtx (snd example_hw_constructed))
       = AV_PIX_FMT_VAAPI"
proof -
  have h1: "FrameWriter_ctor example_lib example_hw_params example_world
     = Inr example_hw_constructed"
    by code_simp
  have h2: "calls example_world = []" by (simp add: example_world_def)
  have h3: "str_find (codec example_hw_params) ''vaapi'' \<noteq> None"
    by (simp add: example_hw_params_def example_params_def)
  have h4: "hw_device example_hw_params = []"
    by (simp add: example_hw_params_def example_params_def)
  from hardware_path_by_codec_name[OF h1 h2] h1 h2 h3 h4 show ?thesis by blast
qed

text \<open>
  Claim C6. On the hardware path, when the transfer of the staged frame fails,
  \<open>add_frame\<close> returns after the transfer and one line on the error stream: the state of
  the encoder is unchanged, no call reaches the encoder or the muxer, the object differs
  only in the staging frame, and the next frame whose transfer succeeds is encoded.
\<close>

theorem transfer_failure_drops_frame:
  assumes hw: "hw_path_active (w, fw)"
    and staged: "staged = (encoder_frame fw)
                   \<lparr>fr_data0 := fst (y_inversion fw pixels y_invert),
                    fr_linesize0 := snd (y_inversion fw pixels y_invert)\<rparr>"
    and fail: "av_hwframe_transfer_data lib (dev w) staged = (ret, d)" "ret \<noteq> 0"
  shows "add_frame lib pixels msec y_invert (w, fw) =
           (w\<lparr>dev := d,
              calls := calls w @ [Av_hwframe_transfer_data staged,
                                  Cerr ''Failed to upload data to the gpu!'']\<rparr>,
            fw\<lparr>encoder_frame := staged\<rparr>)
       \<and> enc (fst (add_frame lib pixels msec y_invert (w, fw))) = enc w
       \<and> filter is_encoder_or_muxer_call (calls (fst (add_frame lib pixels msec y_invert (w, fw))))
           = filter is_encoder_or_muxer_call (calls w)
       \<and> (fst (av_hwframe_transfer_data lib d
                  ((encoder_frame fw)
                     \<lparr>fr_data0 := fst (y_inversion fw next_pixels next_y_invert),
                      fr_linesize0 := snd (y_inversion fw next_pixels next_y_invert)\<rparr>)) = 0 \<longrightarrow>
           frames_encoded (calls (fst (add_frame lib next_pixels next_msec next_y_invert
                                         (add_frame lib pixels msec y_invert (w, fw))))) =
             frames_encoded (calls w) @ [(hw_frame fw)\<lparr>fr_pts := next_msec\<rparr>])"
proof -
  from hw have h: "hw_device_context fw \<noteq> None" by (simp add: hw_path_active_def)
  note E = add_frame_transfer_failed[OF h staged fail, of msec]
  let ?w' = "w\<lparr>dev := d, calls := calls w @ [Av_hwframe_transfer_data staged,
                                  Cerr ''Failed to upload data to the gpu!'']\<rparr>"
  let ?fw' = "fw\<lparr>encoder_frame := staged\<rparr>"
  have "frames_encoded (calls (fst (add_frame lib next_pixels next_msec next_y_invert (?w', ?fw')))) =
             frames_encoded (calls w) @ [(hw_frame fw)\<lparr>fr_pts := next_msec\<rparr>]"
    if ok: "fst (av_hwframe_transfer_data lib d
                  ((encoder_frame fw)
                     \<lparr>fr_data0 := fst (y_inversion fw next_pixels next_y_invert),
                      fr_linesize0 := snd (y_inversion fw next_pixels next_y_invert)\<rparr>)) = 0"
  proof -
    have y: "y_inversion ?fw' next_pixels next_y_invert = y_inversion fw next_pixels next_y_invert"
      by (rule y_inversion_params) simp
    have s2: "(encoder_frame fw)
                     \<lparr>fr_data0 := fst (y_inversion fw next_pixels next_y_invert),
                      fr_linesize0 := snd (y_inversion fw next_pixels next_y_invert)\<rparr>
              = (encoder_frame ?fw')
                     \<lparr>fr_data0 := fst (y_inversion ?fw' next_pixels next_y_invert),
                      fr_linesize0 := snd (y_inversion ?fw' next_pixels next_y_invert)\<rparr>"
      unfolding y by (simp add: staged)
    have "frames_encoded (calls (fst (add_frame lib next_pixels next_msec next_y_invert (?w', ?fw')))) =
           frames_encoded (calls ?w') @ [(hw_frame ?fw')\<lparr>fr_pts := next_msec\<rparr>]"
      by (rule add_frame_transfer_ok[OF _ s2]) (use h ok in simp_all)
    then show ?thesis by (simp add: log_simps call_defs)
  qed
  then show ?thesis
    unfolding E by (simp add: call_defs)
qed

theorem transfer_failure_drops_frame_witness:
  "hw_path_active example_hw_running
   \<and> av_hwframe_transfer_data example_lib (dev (fst example_hw_running)) example_staged = (- 5, 2)
   \<and> add_frame example_lib 8192 1000 True example_hw_running =
        ((fst example_hw_running)
           \<lparr>dev := 2,
            calls := calls (fst example_hw_running)
               @ [Av_hwframe_transfer_data example_staged,
                  Cerr ''Failed to upload data to the gpu!'']\<rparr>,
         (snd example_hw_running)\<lparr>encoder_frame := example_staged\<rparr>)
   \<and> enc (fst (add_frame example_lib 8192 1000 True example_hw_running))
        = enc (fst example_hw_running)
   \<and> fst (av_hwframe_transfer_data example_lib 2 example_staged) = 0
   \<and> frames_encoded (calls (fst (add_frame example_lib 8192 2000 True
                                    (add_frame example_lib 8192 1000 True example_hw_running)))) =
        frames_encoded (calls (fst example_hw_running))
        @ [(hw_frame (snd example_hw_running))\<lparr>fr_pts := 2000\<rparr>]"
proof -
  have h1: "hw_path_active (fst example_hw_running, snd example_hw_running)"
    by code_simp
  have h2: "av_hwframe_transfer_data example_lib (dev (fst example_hw_running)) example_staged = (- 5, 2)"
    by code_simp
  have h3: "(- 5 :: int) \<noteq> 0" by simp
  have h4: "fst (av_hwframe_transfer_data example_lib 2
                  ((encoder_frame (snd example_hw_running))
                     \<lparr>fr_data0 := fst (y_inversion (snd example_hw_running) 8192 True),
                      fr_linesize0 := snd (y_inversion (snd example_hw_running) 8192 True)\<rparr>)) = 0"
    by code_simp
  note T = transfer_failure_drops_frame[OF h1 example_staged_def h2 h3,
      where msec = 1000 and next_pixels = 8192 and next_y_invert = True and next_msec = 2000]
  note T' = T[unfolded prod.collapse]
  note a = T'[THEN conjunct1]
    and b = T'[THEN conjunct2, THEN conjunct1]
    and c = T'[THEN conjunct2, THEN conjunct2, THEN conjunct2, THEN mp, OF h4]
  from h4 have d: "fst (av_hwframe_transfer_data example_lib 2 example_staged) = 0"
    by (simp only: example_staged_def)
  from h1 have e: "hw_path_active example_hw_running" by simp
  from e h2 a b c d show ?thesis by (intro conjI)
qed

section \<open>Vertical flip\<close>

text \<open>
  Claim C7. For a frame whose size in bytes fits a C \<open>int\<close>: without the flip the view
  handed on starts at the buffer with stride 4 * width; with the flip it starts at the last
  row with the negated stride; the rows of the flipped view are the rows of the other in
  reverse order; and the view is what \<open>add_frame\<close> hands to the first call that reads the
  buffer (the transfer, the scaler or the encoder).
\<close>

theorem y_invert_reverses_rows:
  assumes w: "0 < width (params fw)" and h: "0 < height (params fw)"
    and size: "4 * width (params fw) * height (params fw) < 2 ^ 31"
  shows "y_inversion fw pixels False = (pixels, 4 * width (params fw))
       \<and> y_inversion fw pixels True =
           (pixels + 4 * width (params fw) * (height (params fw) - 1), - (4 * width (params fw)))
       \<and> row_start (y_inversion fw pixels True) 0 =
           row_start (y_inversion fw pixels False) (nat (height (params fw)) - 1)
       \<and> rows_presented (y_inversion fw pixels True) (height (params fw)) =
           rev (rows_presented (y_inversion fw pixels False) (height (params fw)))
       \<and> source_view (calls (fst (add_frame lib pixels msec y_invert (ws, fw))) ! length (calls ws)) =
           Some (y_inversion fw pixels y_invert)"
proof -
  note Y = y_inversion_in_range[OF assms]
  have "int (nat (height (params fw)) - 1) = height (params fw) - 1" using h by simp
  then have "row_start (y_inversion fw pixels True) 0 =
           row_start (y_inversion fw pixels False) (nat (height (params fw)) - 1)"
    by (simp add: Y row_start_def algebra_simps)
  moreover have "rows_presented (y_inversion fw pixels True) (height (params fw)) =
           rev (rows_presented (y_inversion fw pixels False) (height (params fw)))"
    unfolding Y using rows_reversed[of pixels "4 * width (params fw)" "height (params fw)"] by simp
  ultimately show ?thesis using Y add_frame_first_call by blast
qed

theorem y_invert_reverses_rows_witness:
  "0 < width (params (snd example_constructed))
   \<and> 0 < height (params (snd example_constructed))
   \<and> 4 * width (params (snd example_constructed)) * height (params (snd example_constructed)) < 2 ^ 31
   \<and> y_inversion (snd example_constructed) 8192 True = (8224, - 16)
   \<and> rows_presented (y_inversion (snd example_constructed) 8192 True) 3 = [8224, 8208, 8192]
   \<and> rows_presented (y_inversion (snd example_constructed) 8192 False) 3 = [8192, 8208, 8224]"
proof -
  have p: "width (params (snd example_constructed)) = 4" "height (params (snd example_constructed)) = 3"
    by code_simp+
  have h1: "0 < width (params (snd example_constructed))"
    and h2: "0 < height (params (snd example_constructed))"
    and h3: "4 * width (params (snd example_constructed)) * height (params (snd example_constructed)) < 2 ^ 31"
    by (simp_all add: p)
  from y_invert_reverses_rows[OF h1 h2 h3, where pixels = 8192 and lib = example_lib
      and msec = 0 and y_invert = False and ws = example_world]
  have r: "y_inversion (snd example_constructed) 8192 False = (8192, 16)"
    "y_inversion (snd example_constructed) 8192 True = (8224, - 16)"
    by (simp_all add: p)
  have "[0..<nat 3] = [0, 1, 2]"
    by (simp add: eval_nat_numeral upt_rec)
  with r h1 h2 h3 show ?thesis
    by (simp add: rows_presented_def row_start_def)
qed

section \<open>The scaler\<close>

text \<open>
  Claim C8, as stated, fails: with an encoder that takes the native layout, on the
  software path, the formats match and the scaler is created all the same.
\<close>

theorem scaler_with_matching_formats_counterexample:
  "FrameWriter_ctor example_lib example_rgb_params example_world = Inr example_rgb_constructed
   \<and> \<not> hw_path_active example_rgb_constructed
   \<and> get_input_format (snd example_rgb_constructed)
       = cc_pix_fmt (codecCtx (snd example_rgb_constructed))
   \<and> swsCtx (snd example_rgb_constructed)
       = Some \<lparr>sws_src_format = AV_PIX_FMT_BGR0, sws_dst_format = AV_PIX_FMT_BGR0\<rparr>
   \<and> Scaler_context \<in> set (acquisitions (calls (fst example_rgb_constructed)))"
  by code_simp

text \<open>
  Claim C8, amended. The scaler is created exactly when the hardware path is inactive,
  whether or not the formats differ. When the hardware path is inactive and the formats
  match, \<open>add_frame\<close> makes no conversion: its first call is the encoder's, on the frame
  that points into the caller's buffer.
\<close>

theorem scaler_on_software_path:
  assumes ctor: "FrameWriter_ctor lib prm w0 = Inr s1"
    and fresh: "calls w0 = []"
  shows "(Scaler_context \<in> set (acquisitions (calls (fst s1))) \<longleftrightarrow> \<not> hw_path_active s1)
       \<and> (swsCtx (snd s1) \<noteq> None \<longleftrightarrow> \<not> hw_path_active s1)
       \<and> (\<not> hw_path_active (w, fw) \<and> get_input_format fw = cc_pix_fmt (codecCtx fw) \<longrightarrow>
            (\<exists>got.
               calls (fst (add_frame lib pixels msec y_invert (w, fw))) =
                 calls w
                 @ Avcodec_encode_video2
                     (Some ((encoder_frame fw)
                        \<lparr>fr_data0 := fst (y_inversion fw pixels y_invert),
                         fr_linesize0 := snd (y_inversion fw pixels y_invert),
                         fr_pts := msec\<rparr>)) got
                 # (case got of
                      None \<Rightarrow> []
                    | Some p \<Rightarrow> [Av_interleaved_write_frame (stream_packet (stream fw) p)])))"
proof -
  obtain w1 fw1 where s: "s1 = (w1, fw1)" by (cases s1)
  note C = ctor_Inr[OF ctor[unfolded s]]
  from C(1) fresh obtain new where
    n: "calls w1 = new" "acquisitions new = (if str_find (codec prm) ''vaapi'' \<noteq> None
                            then hardware_acquisitions else software_acquisitions)"
    by auto
  have a: "(Scaler_context \<in> set (acquisitions (calls (fst s1))) \<longleftrightarrow> \<not> hw_path_active s1)
       \<and> (swsCtx (snd s1) \<noteq> None \<longleftrightarrow> \<not> hw_path_active s1)"
  proof (cases "str_find (codec prm) ''vaapi'' \<noteq> None")
    case True
    from C(4)[OF True] True n show ?thesis
      by (auto simp: s hw_path_active_def hardware_acquisitions_def)
  next
    case False
    then have "str_find (codec prm) ''vaapi'' = None" by simp
    from C(5)[OF this] False n show ?thesis
      by (auto simp: s hw_path_active_def software_acquisitions_def)
  qed
  have b: "\<exists>got.
               calls (fst (add_frame lib pixels msec y_invert (w, fw))) =
                 calls w
                 @ Avcodec_encode_video2
                     (Some ((encoder_frame fw)
                        \<lparr>fr_data0 := fst (y_inversion fw pixels y_invert),
                         fr_linesize0 := snd (y_inversion fw pixels y_invert),
                         fr_pts := msec\<rparr>)) got
                 # (case got of
                      None \<Rightarrow> []
                    | Some p \<Rightarrow> [Av_interleaved_write_frame (stream_packet (stream fw) p)])"
    if h: "\<not> hw_path_active (w, fw)" "get_input_format fw = cc_pix_fmt (codecCtx fw)"
  proof -
    let ?f = "(encoder_frame fw)
                        \<lparr>fr_data0 := fst (y_inversion fw pixels y_invert),
                         fr_linesize0 := snd (y_inversion fw pixels y_invert),
                         fr_pts := msec\<rparr>"
    obtain e got where eg: "avcodec_encode_video2 lib (enc w) (Some ?f) = (e, got)"
      by (cases "avcodec_encode_video2 lib (enc w) (Some ?f)")
    with h show ?thesis
      by (cases got)
         (auto simp: add_frame_def encode_frame_def hw_path_active_def Let_def log_def
            finish_frame_eq split: prod.splits)
  qed
  from a b show ?thesis by blast
qed

theorem scaler_on_software_path_witness:
  "FrameWriter_ctor example_lib example_rgb_params example_world = Inr example_rgb_constructed
   \<and> calls example_world = []
   \<and> \<not> hw_path_active example_rgb_constructed
   \<and> get_input_format (snd example_rgb_constructed)
        = cc_pix_fmt (codecCtx (snd example_rgb_constructed))
   \<and> Scaler_context \<in> set (acquisitions (calls (fst example_rgb_constructed)))
   \<and> calls (fst (add_frame example_lib 8192 0 True example_rgb_constructed)) =
        calls (fst example_rgb_constructed)
        @ [Avcodec_encode_video2
             (Some \<lparr>fr_format = AV_PIX_FMT_BGR0, fr_width = 4, fr_height = 3, fr_data0 = 8224,
                    fr_linesize0 = - 16, fr_pts = 0, fr_hw_frames_ctx = False\<rparr>) None]"
proof -
  have h1: "FrameWriter_ctor example_lib example_rgb_params example_world = Inr example_rgb_constructed"
    by code_simp
  have h2: "calls example_world = []" by (simp add: example_world_def)
  have h3: "\<not> hw_path_active (fst example_rgb_constructed, snd example_rgb_constructed)"
    by code_simp
  have h4: "get_input_format (snd example_rgb_constructed)
        = cc_pix_fmt (codecCtx (snd example_rgb_constructed))"
    by code_simp
  have c: "calls (fst (add_frame example_lib 8192 0 True example_rgb_constructed)) =
        calls (fst example_rgb_constructed)
        @ [Avcodec_encode_video2
             (Some \<lparr>fr_format = AV_PIX_FMT_BGR0, fr_width = 4, fr_height = 3, fr_data0 = 8224,
                    fr_linesize0 = - 16, fr_pts = 0, fr_hw_frames_ctx = False\<rparr>) None]"
    by code_simp
  from scaler_on_software_path[OF h1 h2, where w = "fst example_rgb_constructed"
      and fw = "snd example_rgb_constructed" and pixels = 8192 and msec = 0 and y_invert = True]
    h1 h2 h3 h4 c
  show ?thesis by simp
qed


section \<open>Releases\<close>

text \<open>
  Claim C9, as stated, fails: in the software session the scaler is acquired before the
  frame buffer and also released before it, so the releases are not the acquisitions in
  reverse.
\<close>

theorem release_order_counterexample:
  "FrameWriter_dtor example_lib example_submitted = Some example_finished
   \<and> acquisitions (calls (fst example_finished)) =
       [Container_context, Scaler_context, Codec_session, Output_handle,
        Frame_buffer ''encoder_frame'']
   \<and> releases (calls (fst example_finished)) =
       [Output_handle, Codec_session, Scaler_context, Frame_buffer ''encoder_frame'',
        Container_context]
   \<and> releases (calls (fst example_finished)) \<noteq> rev (acquisitions (calls (fst example_finished)))"
proof -
  from session_resources[OF example_session_facts(1,2) example_submitted_def example_session_facts(4)]
  obtain s3 where "FrameWriter_dtor example_lib example_submitted = Some s3"
     "acquisitions (calls (fst s3)) = software_acquisitions"
     "releases (calls (fst s3)) = [Output_handle, Codec_session, Scaler_context, Frame_buffer ''encoder_frame'', Container_context]"
    using example_session_facts(3,5) by auto
  then show ?thesis
    by (simp add: example_finished_def software_acquisitions_def)
qed

text \<open>
  Claim C9, amended. After the destructor of a software session, the codec, the scaler
  context, the frame buffer and the container context have each been released once, in
  this order, the container context, which was acquired first, last; before them the
  output handle is closed when the format uses a file.
\<close>

theorem teardown_releases:
  assumes ctor: "FrameWriter_ctor lib prm w0 = Inr s1"
    and fresh: "calls w0 = []"
    and software: "str_find (codec prm) ''vaapi'' = None"
    and frames: "s2 = add_frames lib frames s1"
    and ends: "flush_ends_within lib n (enc (fst s2))"
  shows "\<exists>s3. FrameWriter_dtor lib s2 = Some s3
     \<and> acquisitions (calls (fst s3)) = software_acquisitions
     \<and> releases (calls (fst s3)) =
         (if AVFMT_NOFILE (outputFmt (snd s2)) then [] else [Output_handle])
         @ [Codec_session, Scaler_context, Frame_buffer ''encoder_frame'', Container_context]"
  using session_resources[OF ctor fresh frames ends] software by simp

theorem teardown_releases_witness:
  "FrameWriter_ctor example_lib example_params example_world = Inr example_constructed
   \<and> calls example_world = []
   \<and> str_find (codec example_params) ''vaapi'' = None
   \<and> flush_ends_within example_lib 1 (enc (fst example_submitted))
   \<and> (\<exists>s3. FrameWriter_dtor example_lib example_submitted = Some s3
     \<and> acquisitions (calls (fst s3)) = software_acquisitions
     \<and> releases (calls (fst s3)) =
         (if AVFMT_NOFILE (outputFmt (snd example_submitted)) then [] else [Output_handle])
         @ [Codec_session, Scaler_context, Frame_buffer ''encoder_frame'', Container_context])"
  using teardown_releases[OF example_session_facts(1,2,3) example_submitted_def
      example_session_facts(4)] example_session_facts
  by blast

text \<open>
  On the hardware path the destructor releases neither the device nor the frame pool nor
  the device frame (the source marks it as still to do).
\<close>

lemma example_hw_session_facts:
  "FrameWriter_ctor example_lib example_hw_params example_world = Inr example_hw_constructed"
  "str_find (codec example_hw_params) ''vaapi'' \<noteq> None"
  "flush_ends_within example_lib 1 (enc (fst example_hw_submitted))"
  "\<not> AVFMT_NOFILE (outputFmt (snd example_hw_submitted))"
  by (code_simp, simp add: example_hw_params_def example_params_def, code_simp, code_simp)

lemma hardware_handles_kept_example:
  "acquisitions (calls (fst example_hw_finished)) = hardware_acquisitions
   \<and> releases (calls (fst example_hw_finished)) =
       [Output_handle, Codec_session, Frame_buffer ''encoder_frame'', Container_context]"
proof -
  from session_resources[OF example_hw_session_facts(1) example_session_facts(2)
      example_hw_submitted_def example_hw_session_facts(3)]
  obtain s3 where "FrameWriter_dtor example_lib example_hw_submitted = Some s3"
     "acquisitions (calls (fst s3)) = hardware_acquisitions"
     "releases (calls (fst s3)) =
        [Output_handle, Codec_session, Frame_buffer ''encoder_frame'', Container_context]"
    using example_hw_session_facts(2,4) by auto
  then show ?thesis
    by (simp add: example_hw_finished_def)
qed

end
